theory Spec2Isabelle
  imports Complex_Main "HOL-Library.Multiset" "HOL-Library.Word"
begin

section \<open>Python values and errors\<close>

text \<open>
  The repository is Python. Duration samples and statistics are Python floats; they are
  modelled as exact reals (finite values, no rounding), Python integers as \<open>int\<close> and
  list lengths as \<open>nat\<close>. The impact projection is modelled a second time with every
  operation rounded to binary64, for the property that depends on rounding. Every exception that the modelled code can raise is a value of
  \<open>py_error\<close>, and a function that can raise returns \<open>py_error + 'a\<close>.
\<close>

datatype py_error =
    StatisticsError
  | IndexError
  | ValueError
  | KeyError
  | TypeError
  | JSONDecodeError

text \<open>Sequencing: the first exception raised ends the computation.\<close>

definition py_bind :: "py_error + 'a \<Rightarrow> ('a \<Rightarrow> py_error + 'b) \<Rightarrow> py_error + 'b" where
  "py_bind r f = (case r of Inl e \<Rightarrow> Inl e | Inr v \<Rightarrow> f v)"

text \<open>Python's \<open>int(x)\<close> on a float truncates towards zero.\<close>

definition py_int :: "real \<Rightarrow> int" where
  "py_int x = (if 0 \<le> x then \<lfloor>x\<rfloor> else \<lceil>x\<rceil>)"

text \<open>
  Subscripting a Python list with an integer. Positions \<open>0 .. len - 1\<close> are read
  directly, positions \<open>-len .. -1\<close> are read from the end, anything else raises.
\<close>

definition py_getitem :: "'a list \<Rightarrow> int \<Rightarrow> py_error + 'a" where
  "py_getitem xs i =
     (if 0 \<le> i \<and> i < int (length xs) then Inr (xs ! nat i)
      else if - int (length xs) \<le> i \<and> i < 0 then Inr (xs ! nat (int (length xs) + i))
      else Inl IndexError)"

section \<open>The standard library's statistics functions\<close>

text \<open>
  \<open>statistics.median\<close> sorts its argument, raises on no data, returns the middle element
  for an odd length and the mean of the two middle elements for an even length.
  \<open>statistics.mean\<close> raises on no data; \<open>statistics.stdev\<close> needs two data points and
  divides the sum of squared deviations by \<open>n - 1\<close>.
\<close>

definition statistics_median :: "real list \<Rightarrow> py_error + real" where
  "statistics_median data =
     (let d = sort data; n = length d
      in if n = 0 then Inl StatisticsError
         else if n mod 2 = 1 then Inr (d ! (n div 2))
         else Inr ((d ! (n div 2 - 1) + d ! (n div 2)) / 2))"

definition statistics_mean :: "real list \<Rightarrow> py_error + real" where
  "statistics_mean data =
     (if data = [] then Inl StatisticsError
      else Inr (sum_list data / real (length data)))"

definition statistics_stdev :: "real list \<Rightarrow> py_error + real" where
  "statistics_stdev data =
     (if length data < 2 then Inl StatisticsError
      else let m = sum_list data / real (length data);
               ss = sum_list (map (\<lambda>x. (x - m) ^ 2) data)
           in Inr (sqrt (ss / real (length data - 1))))"

section \<open>The statistics engine (report-builder/build_report.py)\<close>

record stats =
  median :: real
  mean :: real
  std :: real
  cv_pct :: real
  p10 :: real
  p90 :: real

definition zero_stats :: stats where
  "zero_stats = \<lparr>median = 0, mean = 0, std = 0, cv_pct = 0, p10 = 0, p90 = 0\<rparr>"

text \<open>
  The two percentile indices, \<open>int(n * 0.1)\<close> and \<open>int(n * 0.9)\<close>, with the
  products taken exactly.
\<close>

definition p10_idx :: "nat \<Rightarrow> int" where
  "p10_idx n = py_int (real n * 0.1)"

definition p90_idx :: "nat \<Rightarrow> int" where
  "p90_idx n = py_int (real n * 0.9)"

definition calculate_stats :: "real list \<Rightarrow> py_error + stats" where
  "calculate_stats samples =
     (if samples = [] then Inr zero_stats
      else
        let sorted_samples = sort samples;
            n = length sorted_samples
        in py_bind (statistics_median sorted_samples) (\<lambda>med.
           py_bind (statistics_mean sorted_samples) (\<lambda>mn.
           py_bind (if n > 1 then statistics_stdev sorted_samples else Inr 0) (\<lambda>sd.
             let cv = (if mn > 0 then sd / mn * 100 else 0)
             in py_bind (py_getitem sorted_samples (p10_idx n)) (\<lambda>lo.
                py_bind (py_getitem sorted_samples (p90_idx n)) (\<lambda>hi.
                Inr \<lparr>median = med, mean = mn, std = sd, cv_pct = cv,
                      p10 = lo, p90 = hi\<rparr>))))))"

definition determine_verdict :: "stats \<Rightarrow> stats \<Rightarrow> string" where
  "determine_verdict baseline_stats optimized_stats =
     (let baseline_cv = cv_pct baseline_stats;
          optimized_cv = cv_pct optimized_stats
      in if baseline_cv < 5.0 \<and> optimized_cv < 5.0 then ''conclusive''
         else if baseline_cv > 15.0 \<or> optimized_cv > 15.0 then ''inconclusive''
         else ''conclusive'')"

section \<open>The converter (tools/convert_to_report.py)\<close>






section \<open>The impact projector (report-builder/build_report.py)\<close>

record impact_inputs =
  executions_per_day :: int
  days_per_year :: int
  cost_model :: string
  cost_per_hour_eur :: real
  electricity_kwh_per_hour :: real
  co2_kg_per_kwh :: real

record impact_outputs =
  time_saved_hours_per_year :: real
  cost_saved_eur_per_year :: real
  electricity_saved_kwh_per_year :: real
  co2_avoided_kg_per_year :: real

definition calculate_impact :: "real \<Rightarrow> impact_inputs \<Rightarrow> impact_outputs" where
  "calculate_impact delta_ms inputs =
     (let hours = (delta_ms * of_int (executions_per_day inputs)
                     * of_int (days_per_year inputs)) / 3600000;
          cost = hours * cost_per_hour_eur inputs;
          electricity = hours * electricity_kwh_per_hour inputs;
          co2 = electricity * co2_kg_per_kwh inputs
      in \<lparr>time_saved_hours_per_year = hours,
          cost_saved_eur_per_year = cost,
          electricity_saved_kwh_per_year = electricity,
          co2_avoided_kg_per_year = co2\<rparr>)"

section \<open>The impact projector in binary64 arithmetic\<close>

text \<open>
  Python floats are IEEE 754 binary64 numbers. A finite double is modelled by the real
  number it denotes. An arithmetic operation computes the exact result and rounds it to the
  nearest double, ties to the even one. Doubles near \<open>x\<close> are spaced \<open>2^(e - 52)\<close> apart
  where \<open>2^e \<le> |x| < 2^(e + 1)\<close>, and \<open>2^-1074\<close> apart below \<open>2^-1022\<close> (the
  subnormal range). A result beyond the largest double is not finite; it and everything
  computed from it is \<open>None\<close>.
\<close>

definition round_half_even :: "real \<Rightarrow> int" where
  "round_half_even x =
     (let f = \<lfloor>x\<rfloor>; r = x - of_int f
      in if r < 1 / 2 then f else if 1 / 2 < r then f + 1
         else if even f then f else f + 1)"

definition f64_quantum :: "real \<Rightarrow> real" where
  "f64_quantum x =
     (if \<bar>x\<bar> < 2 powr (- 1022) then 2 powr (- 1074)
      else 2 powr (of_int \<lfloor>log 2 \<bar>x\<bar>\<rfloor> - 52))"

definition f64_nearest :: "real \<Rightarrow> real" where
  "f64_nearest x = of_int (round_half_even (x / f64_quantum x)) * f64_quantum x"

definition f64_max :: real where
  "f64_max = (2 ^ 53 - 1) * 2 powr 971"

definition f64_round :: "real \<Rightarrow> real option" where
  "f64_round x = (if \<bar>f64_nearest x\<bar> \<le> f64_max then Some (f64_nearest x) else None)"

text \<open>An integer operand is converted to a double first.\<close>

definition f64_of_int :: "int \<Rightarrow> real option" where
  "f64_of_int n = f64_round (of_int n)"

definition f64_mul :: "real option \<Rightarrow> real option \<Rightarrow> real option" where
  "f64_mul a b = (case a of None \<Rightarrow> None | Some x \<Rightarrow>
                   (case b of None \<Rightarrow> None | Some y \<Rightarrow> f64_round (x * y)))"

definition f64_div :: "real option \<Rightarrow> real option \<Rightarrow> real option" where
  "f64_div a b = (case a of None \<Rightarrow> None | Some x \<Rightarrow>
                   (case b of None \<Rightarrow> None | Some y \<Rightarrow>
                      if y = 0 then None else f64_round (x / y)))"

text \<open>
  \<open>calculate_impact\<close> with every operation carried out in binary64, in the order in
  which Python evaluates the source expressions.
\<close>

record impact_outputs_f64 =
  time_saved_hours_per_year_f64 :: "real option"
  cost_saved_eur_per_year_f64 :: "real option"
  electricity_saved_kwh_per_year_f64 :: "real option"
  co2_avoided_kg_per_year_f64 :: "real option"

definition calculate_impact_f64 :: "real \<Rightarrow> impact_inputs \<Rightarrow> impact_outputs_f64" where
  "calculate_impact_f64 delta_ms inputs =
     (let hours = f64_div
                    (f64_mul (f64_mul (Some delta_ms) (f64_of_int (executions_per_day inputs)))
                             (f64_of_int (days_per_year inputs)))
                    (f64_of_int 3600000);
          cost = f64_mul hours (Some (cost_per_hour_eur inputs));
          electricity = f64_mul hours (Some (electricity_kwh_per_hour inputs));
          co2 = f64_mul electricity (Some (co2_kg_per_kwh inputs))
      in \<lparr>time_saved_hours_per_year_f64 = hours,
          cost_saved_eur_per_year_f64 = cost,
          electricity_saved_kwh_per_year_f64 = electricity,
          co2_avoided_kg_per_year_f64 = co2\<rparr>)"

section \<open>JSON values\<close>

text \<open>
  What \<open>json.load\<close> returns and \<open>json.dump\<close> accepts. An object is a Python dict,
  kept as an association list; a key is looked up with \<open>map_of\<close>.
\<close>

datatype json =
    JNull
  | JBool bool
  | JInt int
  | JFloat real
  | JStr string
  | JList "json list"
  | JObj "(string \<times> json) list"

text \<open>Python's truth value of a JSON value, as used by \<open>or\<close>.\<close>

fun py_truthy :: "json \<Rightarrow> bool" where
  "py_truthy JNull = False"
| "py_truthy (JBool b) = b"
| "py_truthy (JInt i) = (i \<noteq> 0)"
| "py_truthy (JFloat r) = (r \<noteq> 0)"
| "py_truthy (JStr s) = (s \<noteq> [])"
| "py_truthy (JList xs) = (xs \<noteq> [])"
| "py_truthy (JObj kvs) = (kvs \<noteq> [])"

text \<open>\<open>d.get(k, default)\<close> on a dict.\<close>

definition dict_get :: "(string \<times> json) list \<Rightarrow> string \<Rightarrow> json \<Rightarrow> json" where
  "dict_get d k dflt = (case map_of d k of None \<Rightarrow> dflt | Some v \<Rightarrow> v)"

text \<open>\<open>d[k]\<close> on a loaded JSON value: only a dict can be subscripted with a string.\<close>

fun json_subscript :: "json \<Rightarrow> string \<Rightarrow> py_error + json" where
  "json_subscript (JObj kvs) k = (case map_of kvs k of None \<Rightarrow> Inl KeyError | Some v \<Rightarrow> Inr v)"
| "json_subscript _ k = Inl TypeError"

text \<open>Reading a field of a report, and a nested field along a path of keys.\<close>

fun json_field :: "json \<Rightarrow> string \<Rightarrow> json option" where
  "json_field (JObj kvs) k = map_of kvs k"
| "json_field _ k = None"

fun json_path :: "json \<Rightarrow> string list \<Rightarrow> json option" where
  "json_path j [] = Some j"
| "json_path j (k # ks) = (case json_field j k of None \<Rightarrow> None | Some v \<Rightarrow> json_path v ks)"

section \<open>The report aggregator (report-builder/build_report.py)\<close>

text \<open>
  The runner summary, with the keys \<open>build_report\<close> reads. \<open>None\<close> is an absent key.
  The two sample sequences are lists of floats; the other values are copied as they are.
\<close>

record runner_summary =
  baseline_samples :: "real list option"
  optimized_samples :: "real list option"
  warmup :: "json option"
  runs :: "json option"
  repeat :: "json option"
  stability_enabled :: "json option"
  stability_mode :: "json option"
  waited_seconds :: "json option"
  cpu_affinity :: "json option"

text \<open>
  What \<open>build_report\<close> reads from its surroundings: the clock (read twice), the host
  name, the platform strings and the commit found by \<open>get_git_commit\<close>.
\<close>

record host_env =
  utcnow_for_id :: string
  utcnow_for_stamp :: string
  gethostname :: string
  platform_system :: string
  platform_release :: string
  platform_processor :: string
  get_git_commit :: "string option"

type_synonym byte = "8 word"

definition encode :: "string \<Rightarrow> byte list" where
  "encode s = map (\<lambda>c. of_nat (of_char c)) s"

text \<open>\<open>x.get(k, default)\<close> on an optional key of the runner summary.\<close>

definition get_or :: "'a option \<Rightarrow> 'a \<Rightarrow> 'a" where
  "get_or v dflt = (case v of None \<Rightarrow> dflt | Some x \<Rightarrow> x)"

text \<open>\<open>runner_summary.get('cpu_affinity') or 2\<close>: a missing key reads as \<open>None\<close>.\<close>

definition cpu_affinity_or_2 :: "json option \<Rightarrow> json" where
  "cpu_affinity_or_2 v =
     (let x = get_or v JNull in if py_truthy x then x else JInt 2)"

definition stats_json :: "stats \<Rightarrow> json" where
  "stats_json s =
     JObj [(''median'', JFloat (median s)), (''mean'', JFloat (mean s)),
           (''std'', JFloat (std s)), (''cv_pct'', JFloat (cv_pct s)),
           (''p10'', JFloat (p10 s)), (''p90'', JFloat (p90 s))]"

definition default_impact_inputs :: impact_inputs where
  "default_impact_inputs =
     \<lparr>executions_per_day = 100, days_per_year = 250, cost_model = ''infra'',
      cost_per_hour_eur = 0.50, electricity_kwh_per_hour = 0.15, co2_kg_per_kwh = 0.475\<rparr>"

definition impact_inputs_json :: "impact_inputs \<Rightarrow> json" where
  "impact_inputs_json i =
     JObj [(''executions_per_day'', JInt (executions_per_day i)),
           (''days_per_year'', JInt (days_per_year i)),
           (''cost_model'', JStr (cost_model i)),
           (''cost_per_hour_eur'', JFloat (cost_per_hour_eur i)),
           (''electricity_kwh_per_hour'', JFloat (electricity_kwh_per_hour i)),
           (''co2_kg_per_kwh'', JFloat (co2_kg_per_kwh i))]"

definition impact_outputs_json :: "impact_outputs \<Rightarrow> json" where
  "impact_outputs_json out =
     JObj [(''time_saved_hours_per_year'', JFloat (time_saved_hours_per_year out)),
           (''cost_saved_eur_per_year'', JFloat (cost_saved_eur_per_year out)),
           (''electricity_saved_kwh_per_year'', JFloat (electricity_saved_kwh_per_year out)),
           (''co2_avoided_kg_per_year'', JFloat (co2_avoided_kg_per_year out))]"

text \<open>The sections of the report literal, in the order of the source.\<close>

definition report_meta ::
  "(byte list \<Rightarrow> string) \<Rightarrow> host_env \<Rightarrow> (string \<times> json) list \<Rightarrow> json" where
  "report_meta sha256_hexdigest env metadata =
     JObj [(''report_id'',
              JStr (take 16 (sha256_hexdigest (encode (utcnow_for_id env @ gethostname env))))),
           (''generated_at'', JStr (utcnow_for_stamp env @ ''Z'')),
           (''app_version'', JStr ''1.0.0''),
           (''git_commit'', (case get_git_commit env of None \<Rightarrow> JNull | Some c \<Rightarrow> JStr c)),
           (''machine'',
              JObj [(''hostname'', JStr (gethostname env)),
                    (''os'', JStr (platform_system env)),
                    (''kernel'', JStr (platform_release env)),
                    (''cpu_model'',
                       JStr (if platform_processor env \<noteq> [] then platform_processor env
                             else ''unknown''))]),
           (''dataset'',
              JObj [(''hash_sha256'', dict_get metadata ''hash_sha256'' (JStr [])),
                    (''N'', dict_get metadata ''N'' (JInt 0)),
                    (''M'', dict_get metadata ''M'' (JInt 0)),
                    (''D'', dict_get metadata ''D'' (JInt 0)),
                    (''seed'', dict_get metadata ''seed'' (JInt 0))])]"

definition report_benchmark ::
  "runner_summary \<Rightarrow> string \<Rightarrow> string \<Rightarrow> string \<Rightarrow> string \<Rightarrow> string \<Rightarrow> json" where
  "report_benchmark rs command_line baseline_impl baseline_variant
       optimized_impl optimized_variant =
     JObj [(''command_line'', JStr command_line),
           (''warmup'', get_or (warmup rs) (JInt 5)),
           (''runs'', get_or (runs rs) (JInt 30)),
           (''repeat'', get_or (repeat rs) (JInt 50)),
           (''stability'',
              JObj [(''enabled'', get_or (stability_enabled rs) (JBool True)),
                    (''mode'', get_or (stability_mode rs) (JStr ''wait'')),
                    (''waited_seconds'', get_or (waited_seconds rs) (JFloat 0))]),
           (''single_thread'',
              JObj [(''env_vars'',
                 JObj [(''OMP_NUM_THREADS'', JStr ''1''),
                       (''MKL_NUM_THREADS'', JStr ''1''),
                       (''OPENBLAS_NUM_THREADS'', JStr ''1''),
                       (''NUMEXPR_NUM_THREADS'', JStr ''1'')])]),
           (''cpu_affinity'', cpu_affinity_or_2 (cpu_affinity rs)),
           (''impls'',
              JList [JObj [(''name'', JStr baseline_impl), (''variant'', JStr baseline_variant)],
                     JObj [(''name'', JStr optimized_impl),
                           (''variant'', JStr optimized_variant)]])]"

definition report_run :: "string \<Rightarrow> string \<Rightarrow> real list \<Rightarrow> json" where
  "report_run impl variant samples =
     JObj [(''impl'', JStr impl),
           (''variant'', JStr variant),
           (''samples'', JList (map JFloat samples)),
           (''status'', JList (replicate (length samples) (JStr ''success''))),
           (''errors'', JList [])]"

definition report_summary :: "stats \<Rightarrow> stats \<Rightarrow> real \<Rightarrow> real \<Rightarrow> string \<Rightarrow> json" where
  "report_summary baseline_stats optimized_stats delta_ms gain_pct verdict =
     JObj [(''baseline_stats'', stats_json baseline_stats),
           (''optimized_stats'', stats_json optimized_stats),
           (''delta_ms'', JFloat delta_ms),
           (''gain_pct'', JFloat gain_pct),
           (''verdict'', JStr verdict),
           (''notes'', JStr ''Gain measured at environment constant (same machine).'')]"

definition report_artifacts :: json where
  "report_artifacts =
     JObj [(''results_csv'', JStr ''runner/results.csv''),
           (''summary_json'', JStr ''runner/summary.json''),
           (''prometheus_url'', JStr ''http://localhost:9091''),
           (''grafana_url'', JStr ''http://localhost:3000'')]"

definition build_report ::
  "(byte list \<Rightarrow> string) \<Rightarrow> host_env \<Rightarrow> runner_summary \<Rightarrow> json \<Rightarrow> (string \<times> json) list \<Rightarrow>
     string \<Rightarrow> string \<Rightarrow> string \<Rightarrow> string \<Rightarrow> string \<Rightarrow> py_error + json" where
  "build_report sha256_hexdigest env rs ebpf_evidence metadata command_line
       baseline_impl baseline_variant optimized_impl optimized_variant =
     (let baseline = get_or (baseline_samples rs) [];
          optimized = get_or (optimized_samples rs) []
      in py_bind (calculate_stats baseline) (\<lambda>baseline_stats.
         py_bind (calculate_stats optimized) (\<lambda>optimized_stats.
           let delta_ms = median baseline_stats - median optimized_stats;
               gain_pct = (if median baseline_stats > 0
                           then delta_ms / median baseline_stats * 100 else 0);
               verdict = determine_verdict baseline_stats optimized_stats;
               inputs = default_impact_inputs;
               outputs = calculate_impact delta_ms inputs
           in Inr (JObj
             [(''schema_version'', JStr ''1.0.0''),
              (''meta'', report_meta sha256_hexdigest env metadata),
              (''benchmark'',
                 report_benchmark rs command_line baseline_impl baseline_variant
                   optimized_impl optimized_variant),
              (''runs'',
                 JObj [(''baseline'', report_run baseline_impl baseline_variant baseline),
                       (''optimized'', report_run optimized_impl optimized_variant optimized)]),
              (''summary'',
                 report_summary baseline_stats optimized_stats delta_ms gain_pct verdict),
              (''evidence'', ebpf_evidence),
              (''impact'',
                 JObj [(''inputs'', impact_inputs_json inputs),
                       (''outputs'', impact_outputs_json outputs)]),
              (''artifacts'', report_artifacts)]))))"

section \<open>The dataset authority (data/generate_data.py)\<close>

text \<open>
  The output directory is a map from file names to file contents, which are bytes.
  The library calls whose results the code only passes on are parameters: the generator
  state that a seed gives, drawing one standard normal value as a 64-bit float, SHA-256
  with hexadecimal output, and the JSON writer and reader.
\<close>

type_synonym directory = "string \<rightharpoonup> byte list"

record 'g library =
  seeded_generator :: "int \<Rightarrow> 'g"
  standard_normal :: "'g \<Rightarrow> 64 word \<times> 'g"
  hashlib_sha256 :: "byte list \<Rightarrow> string"
  json_dump :: "json \<Rightarrow> byte list"
  json_load :: "byte list \<Rightarrow> py_error + json"





text \<open>\<open>np.fromfile(f, dtype=np.float64)\<close> reads the whole elements of the file.\<close>

definition np_fromfile :: "byte list \<Rightarrow> byte list" where
  "np_fromfile content = take (8 * (length content div 8)) content"

text \<open>An argument of \<open>reshape\<close> has to be an integer; a bool is rejected too.\<close>

fun as_index :: "json \<Rightarrow> py_error + int" where
  "as_index (JInt i) = Inr i"
| "as_index _ = Inl TypeError"

text \<open>
  \<open>a.reshape(rows, cols)\<close>: the element count has to match; one dimension may be
  negative and is then inferred from the other. The buffer is unchanged.
\<close>

definition np_reshape :: "byte list \<Rightarrow> json \<Rightarrow> json \<Rightarrow> py_error + byte list" where
  "np_reshape buf rows_arg cols_arg =
     py_bind (as_index rows_arg) (\<lambda>rows.
     py_bind (as_index cols_arg) (\<lambda>cols.
       let count = int (length buf div 8)
       in if 0 \<le> rows \<and> 0 \<le> cols
          then (if rows * cols = count then Inr buf else Inl ValueError)
          else if rows < 0 \<and> 0 < cols
          then (if count mod cols = 0 then Inr buf else Inl ValueError)
          else if cols < 0 \<and> 0 < rows
          then (if count mod rows = 0 then Inr buf else Inl ValueError)
          else Inl ValueError))"

text \<open>\<open>a, b = v\<close> on a loaded JSON value.\<close>

fun unpack_pair :: "json \<Rightarrow> py_error + (json \<times> json)" where
  "unpack_pair (JList [a, b]) = Inr (a, b)"
| "unpack_pair (JList _) = Inl ValueError"
| "unpack_pair (JStr s) =
     (if length s = 2 then Inr (JStr [s ! 0], JStr [s ! 1]) else Inl ValueError)"
| "unpack_pair (JObj kvs) =
     (if length kvs = 2 then Inr (JStr (fst (kvs ! 0)), JStr (fst (kvs ! 1)))
      else Inl ValueError)"
| "unpack_pair _ = Inl TypeError"

text \<open>\<open>v[0]\<close> on a loaded JSON value.\<close>

fun subscript_0 :: "json \<Rightarrow> py_error + json" where
  "subscript_0 (JList []) = Inl IndexError"
| "subscript_0 (JList (x # xs)) = Inr x"
| "subscript_0 (JStr []) = Inl IndexError"
| "subscript_0 (JStr (c # cs)) = Inr (JStr [c])"
| "subscript_0 (JObj kvs) = Inl KeyError"
| "subscript_0 _ = Inl TypeError"

text \<open>\<open>output_path / v\<close>: the value has to be a string.\<close>

fun path_join :: "json \<Rightarrow> py_error + string" where
  "path_join (JStr name) = Inr name"
| "path_join _ = Inl TypeError"

text \<open>The metadata dictionary that \<open>generate_dataset\<close> builds.\<close>

definition dataset_metadata :: "int \<Rightarrow> int \<Rightarrow> int \<Rightarrow> int \<Rightarrow> string \<Rightarrow> json" where
  "dataset_metadata N M D seed dataset_hash =
     JObj [(''hash_sha256'', JStr dataset_hash),
           (''N'', JInt N), (''M'', JInt M), (''D'', JInt D), (''seed'', JInt seed),
           (''embeddings_file'', JStr ''embeddings.f64''),
           (''axes_file'', JStr ''axes.f64''),
           (''embeddings_shape'', JList [JInt N, JInt D]),
           (''axes_shape'', JList [JInt M, JInt D]),
           (''dtype'', JStr ''float64''),
           (''size_bytes'',
              JObj [(''embeddings'', JInt (N * D * 8)),
                    (''axes'', JInt (M * D * 8)),
                    (''total'', JInt ((N * D + M * D) * 8))])]"


text \<open>What \<open>verify_dataset\<close> prints before it returns.\<close>

datatype diagnostic =
    MetadataNotFound
  | FileNotFound string
  | HashMismatch json string
  | Verified string

definition verify_dataset :: "'g library \<Rightarrow> directory \<Rightarrow> py_error + (bool \<times> diagnostic)" where
  "verify_dataset lib dir =
     (case dir ''metadata.json'' of
        None \<Rightarrow> Inr (False, MetadataNotFound)
      | Some metadata_bytes \<Rightarrow>
     py_bind (json_load lib metadata_bytes) (\<lambda>metadata.
     py_bind (json_subscript metadata ''embeddings_file'') (\<lambda>ef.
     py_bind (path_join ef) (\<lambda>embeddings_file.
     py_bind (json_subscript metadata ''axes_file'') (\<lambda>af.
     py_bind (path_join af) (\<lambda>axes_file.
       case dir embeddings_file of
         None \<Rightarrow> Inr (False, FileNotFound embeddings_file)
       | Some embeddings_content \<Rightarrow>
      (case dir axes_file of
         None \<Rightarrow> Inr (False, FileNotFound axes_file)
       | Some axes_content \<Rightarrow>
     py_bind (json_subscript metadata ''embeddings_shape'') (\<lambda>es.
     py_bind (unpack_pair es) (\<lambda>(N, D).
     py_bind (json_subscript metadata ''axes_shape'') (\<lambda>ash.
     py_bind (subscript_0 ash) (\<lambda>M.
     py_bind (np_reshape (np_fromfile embeddings_content) N D) (\<lambda>embeddings.
     py_bind (np_reshape (np_fromfile axes_content) M D) (\<lambda>axes.
       let calculated_hash = hashlib_sha256 lib (embeddings @ axes)
       in py_bind (json_subscript metadata ''hash_sha256'') (\<lambda>expected.
            if JStr calculated_hash \<noteq> expected
            then Inr (False, HashMismatch expected calculated_hash)
            else Inr (True, Verified calculated_hash)))))))))))))))"

text \<open>
  A stand-in library for concrete runs: a counter as generator state, a constant digest,
  and a JSON reader that returns the descriptor of the one-by-one dataset with seed 42.
\<close>

definition example_library :: "nat library" where
  "example_library =
     \<lparr>seeded_generator = nat,
      standard_normal = (\<lambda>g. (of_nat g, Suc g)),
      hashlib_sha256 = (\<lambda>b. ''00''),
      json_dump = (\<lambda>j. []),
      json_load = (\<lambda>b. Inr (dataset_metadata 1 1 1 42 ''00''))\<rparr>"

text \<open>A runner summary with no keys, and a host, for concrete runs.\<close>

definition empty_summary :: runner_summary where
  "empty_summary =
     \<lparr>baseline_samples = None, optimized_samples = None, warmup = None, runs = None,
      repeat = None, stability_enabled = None, stability_mode = None,
      waited_seconds = None, cpu_affinity = None\<rparr>"

definition example_env :: host_env where
  "example_env =
     \<lparr>utcnow_for_id = ''2024-01-01T00:00:00.000001'',
      utcnow_for_stamp = ''2024-01-01T00:00:00.000002'',
      gethostname = ''bench01'', platform_system = ''Linux'',
      platform_release = ''6.1.0'', platform_processor = [],
      get_git_commit = None\<rparr>"

text \<open>
  The median as the specification words it: the mean of the two middle values of the
  sorted sequence for an even length, the middle value for an odd length.
\<close>

definition order_statistic_median :: "real list \<Rightarrow> real" where
  "order_statistic_median S =
     (let s = sort S; n = length s
      in if even n then (s ! (n div 2 - 1) + s ! (n div 2)) / 2 else s ! (n div 2))"

section \<open>Facts about the library functions and the percentile indices\<close>

lemma sort_Nil_iff [simp]: "sort xs = [] \<longleftrightarrow> xs = []"
  using length_sort[of "\<lambda>x. x" xs] by (metis length_0_conv)

lemma p10_idx_eq: "p10_idx n = int (n div 10)"
proof -
  have "real n * 0.1 = real n / real 10" by simp
  then have "\<lfloor>real n * 0.1\<rfloor> = int (n div 10)"
    by (simp only: floor_divide_of_nat_eq)
  then show ?thesis by (simp add: p10_idx_def py_int_def)
qed

lemma p90_idx_eq: "p90_idx n = int (9 * n div 10)"
proof -
  have "real n * 0.9 = real (9 * n) / real 10" by simp
  then have "\<lfloor>real n * 0.9\<rfloor> = int (9 * n div 10)"
    by (simp only: floor_divide_of_nat_eq)
  then show ?thesis by (simp add: p90_idx_def py_int_def)
qed

lemma idx_bounds:
  "0 < n \<Longrightarrow> 0 \<le> p10_idx n \<and> p10_idx n < int n \<and> 0 \<le> p90_idx n \<and> p90_idx n < int n"
  by (simp add: p10_idx_eq p90_idx_eq)

lemma py_getitem_in_range:
  "0 \<le> i \<Longrightarrow> i < int (length xs) \<Longrightarrow> py_getitem xs i = Inr (xs ! nat i)"
  by (simp add: py_getitem_def)

lemma statistics_median_nonempty:
  "data \<noteq> [] \<Longrightarrow> statistics_median data =
     Inr (if length data mod 2 = 1 then sort data ! (length data div 2)
          else (sort data ! (length data div 2 - 1) + sort data ! (length data div 2)) / 2)"
  by (simp add: statistics_median_def Let_def)

lemma statistics_mean_nonempty:
  "data \<noteq> [] \<Longrightarrow> statistics_mean data = Inr (sum_list data / real (length data))"
  by (simp add: statistics_mean_def)

lemma statistics_stdev_two:
  "1 < length data \<Longrightarrow> \<exists>s. statistics_stdev data = Inr s"
  by (simp add: statistics_stdev_def Let_def)

lemma sort_sort [simp]: "sort (sort xs) = sort (xs :: real list)"
  by (simp add: sorted_sort_id)

lemma sort_cong_mset: "mset xs = mset ys \<Longrightarrow> sort xs = sort (ys :: real list)"
  by (rule properties_for_sort) simp_all

text \<open>What \<open>calculate_stats\<close> returns on a non-empty sequence, field by field.\<close>

lemma calculate_stats_nonempty:
  assumes "samples \<noteq> []"
  shows "\<exists>med sd.
     statistics_median (sort samples) = Inr med \<and>
     (if 1 < length samples then statistics_stdev (sort samples) else Inr 0) = Inr sd \<and>
     calculate_stats samples =
       Inr \<lparr>median = med,
            mean = sum_list (sort samples) / real (length samples),
            std = sd,
            cv_pct = (if sum_list (sort samples) / real (length samples) > 0
                      then sd / (sum_list (sort samples) / real (length samples)) * 100
                      else 0),
            p10 = sort samples ! (length samples div 10),
            p90 = sort samples ! (9 * length samples div 10)\<rparr>"
proof -
  let ?ss = "sort samples"
  let ?n = "length ?ss"
  have ne: "?ss \<noteq> []" using assms by simp
  then have n: "0 < ?n" by simp
  obtain med where med: "statistics_median ?ss = Inr med"
    using statistics_median_nonempty[OF ne] by blast
  have mn: "statistics_mean ?ss = Inr (sum_list ?ss / real ?n)"
    by (rule statistics_mean_nonempty[OF ne])
  obtain sd where sd: "(if ?n > 1 then statistics_stdev ?ss else Inr 0) = Inr sd"
    using statistics_stdev_two[of ?ss] by (cases "?n > 1") auto
  have lo: "py_getitem ?ss (p10_idx ?n) = Inr (?ss ! nat (p10_idx ?n))"
    using idx_bounds[OF n] by (intro py_getitem_in_range) simp_all
  have hi: "py_getitem ?ss (p90_idx ?n) = Inr (?ss ! nat (p90_idx ?n))"
    using idx_bounds[OF n] by (intro py_getitem_in_range) simp_all
  have "calculate_stats samples =
       Inr \<lparr>median = med, mean = sum_list ?ss / real ?n, std = sd,
            cv_pct = (if sum_list ?ss / real ?n > 0
                      then sd / (sum_list ?ss / real ?n) * 100 else 0),
            p10 = ?ss ! nat (p10_idx ?n), p90 = ?ss ! nat (p90_idx ?n)\<rparr>"
    unfolding calculate_stats_def Let_def
    by (simp only: assms if_False med mn sd lo hi py_bind_def sum.case)
  then show ?thesis using med sd by (simp add: p10_idx_eq p90_idx_eq)
qed

lemma calculate_stats_sort: "calculate_stats (sort samples) = calculate_stats samples"
  by (simp add: calculate_stats_def)

section \<open>The verdict rule\<close>

text \<open>
  Claim C2. \<open>determine_verdict\<close> has three branches, taken in this order: both CV percent strictly
  below 5.0 give conclusive; otherwise a CV percent strictly above 15.0 on either side gives
  inconclusive; otherwise the verdict is conclusive. A CV percent of exactly 5.0 or exactly 15.0
  takes neither strict comparison, so with the other side at most 15.0 the verdict is
  conclusive.
\<close>

theorem determine_verdict_three_branches:
  "(cv_pct b < 5 \<and> cv_pct c < 5 \<longrightarrow> determine_verdict b c = ''conclusive'') \<and>
   (\<not> (cv_pct b < 5 \<and> cv_pct c < 5) \<and> (cv_pct b > 15 \<or> cv_pct c > 15)
      \<longrightarrow> determine_verdict b c = ''inconclusive'') \<and>
   (\<not> (cv_pct b < 5 \<and> cv_pct c < 5) \<and> \<not> (cv_pct b > 15 \<or> cv_pct c > 15)
      \<longrightarrow> determine_verdict b c = ''conclusive'') \<and>
   ((cv_pct b = 5 \<or> cv_pct b = 15) \<and> cv_pct c \<le> 15
      \<longrightarrow> determine_verdict b c = ''conclusive'') \<and>
   ((cv_pct c = 5 \<or> cv_pct c = 15) \<and> cv_pct b \<le> 15
      \<longrightarrow> determine_verdict b c = ''conclusive'')"
  by (auto simp: determine_verdict_def Let_def)

theorem determine_verdict_three_branches_witness:
  "determine_verdict \<lparr>median = 1, mean = 1, std = 0, cv_pct = 4.9, p10 = 1, p90 = 1\<rparr>
                     \<lparr>median = 1, mean = 1, std = 0, cv_pct = 4.9, p10 = 1, p90 = 1\<rparr> = ''conclusive'' \<and>
   determine_verdict \<lparr>median = 1, mean = 1, std = 0, cv_pct = 5.1, p10 = 1, p90 = 1\<rparr>
                     \<lparr>median = 1, mean = 1, std = 0, cv_pct = 16, p10 = 1, p90 = 1\<rparr> = ''inconclusive'' \<and>
   determine_verdict \<lparr>median = 1, mean = 1, std = 0, cv_pct = 5.1, p10 = 1, p90 = 1\<rparr>
                     \<lparr>median = 1, mean = 1, std = 0, cv_pct = 10, p10 = 1, p90 = 1\<rparr> = ''conclusive'' \<and>
   determine_verdict \<lparr>median = 1, mean = 1, std = 0, cv_pct = 5, p10 = 1, p90 = 1\<rparr>
                     \<lparr>median = 1, mean = 1, std = 0, cv_pct = 15, p10 = 1, p90 = 1\<rparr> = ''conclusive'' \<and>
   determine_verdict \<lparr>median = 1, mean = 1, std = 0, cv_pct = 5.1, p10 = 1, p90 = 1\<rparr>
                     \<lparr>median = 1, mean = 1, std = 0, cv_pct = 15, p10 = 1, p90 = 1\<rparr> = ''conclusive''"
  using
    determine_verdict_three_branches
      [of "\<lparr>median = 1, mean = 1, std = 0, cv_pct = 4.9, p10 = 1, p90 = 1\<rparr>"
          "\<lparr>median = 1, mean = 1, std = 0, cv_pct = 4.9, p10 = 1, p90 = 1\<rparr>"]
    determine_verdict_three_branches
      [of "\<lparr>median = 1, mean = 1, std = 0, cv_pct = 5.1, p10 = 1, p90 = 1\<rparr>"
          "\<lparr>median = 1, mean = 1, std = 0, cv_pct = 16, p10 = 1, p90 = 1\<rparr>"]
    determine_verdict_three_branches
      [of "\<lparr>median = 1, mean = 1, std = 0, cv_pct = 5.1, p10 = 1, p90 = 1\<rparr>"
          "\<lparr>median = 1, mean = 1, std = 0, cv_pct = 10, p10 = 1, p90 = 1\<rparr>"]
    determine_verdict_three_branches
      [of "\<lparr>median = 1, mean = 1, std = 0, cv_pct = 5, p10 = 1, p90 = 1\<rparr>"
          "\<lparr>median = 1, mean = 1, std = 0, cv_pct = 15, p10 = 1, p90 = 1\<rparr>"]
    determine_verdict_three_branches
      [of "\<lparr>median = 1, mean = 1, std = 0, cv_pct = 5.1, p10 = 1, p90 = 1\<rparr>"
          "\<lparr>median = 1, mean = 1, std = 0, cv_pct = 15, p10 = 1, p90 = 1\<rparr>"]
  by simp

section \<open>The converter's verdict\<close>












section \<open>The statistics record\<close>

text \<open>
  Claim C5. On the empty sequence \<open>calculate_stats\<close> returns the record with all six
  fields zero; on a one-element sequence \<open>[x]\<close> it returns median, mean, p10 and p90 equal
  to \<open>x\<close> and std and cv_pct equal to zero. Neither call raises.
\<close>

theorem calculate_stats_degenerate:
  "calculate_stats [] = Inr \<lparr>median = 0, mean = 0, std = 0, cv_pct = 0, p10 = 0, p90 = 0\<rparr> \<and>
   calculate_stats [x] = Inr \<lparr>median = x, mean = x, std = 0, cv_pct = 0, p10 = x, p90 = x\<rparr>"
  by (simp add: calculate_stats_def zero_stats_def py_bind_def statistics_median_def
      statistics_mean_def p10_idx_eq p90_idx_eq py_getitem_def)

text \<open>
  Claim C6. \<open>calculate_stats\<close> returns the same record for a sequence and for any
  permutation of it, and on a non-empty sequence its median field is the order-statistic
  median.
\<close>

theorem calculate_stats_permutation_median:
  assumes "mset S' = mset S"
  shows "calculate_stats S' = calculate_stats S \<and>
         (S \<noteq> [] \<longrightarrow> (\<exists>r. calculate_stats S = Inr r \<and> median r = order_statistic_median S))"
proof
  have "sort S' = sort S" using assms by (rule sort_cong_mset)
  then show "calculate_stats S' = calculate_stats S"
    using calculate_stats_sort[of S'] calculate_stats_sort[of S] by simp
next
  show "S \<noteq> [] \<longrightarrow> (\<exists>r. calculate_stats S = Inr r \<and> median r = order_statistic_median S)"
  proof
    assume ne: "S \<noteq> []"
    from calculate_stats_nonempty[OF ne] obtain med sd where
      med: "statistics_median (sort S) = Inr med" and
      cs: "calculate_stats S = Inr \<lparr>median = med,
            mean = sum_list (sort S) / real (length S),
            std = sd,
            cv_pct = (if sum_list (sort S) / real (length S) > 0
                      then sd / (sum_list (sort S) / real (length S)) * 100
                      else 0),
            p10 = sort S ! (length S div 10),
            p90 = sort S ! (9 * length S div 10)\<rparr>" by blast
    have "med = order_statistic_median S"
      using med ne by (auto simp: statistics_median_def order_statistic_median_def Let_def
          split: if_splits) 
    then show "\<exists>r. calculate_stats S = Inr r \<and> median r = order_statistic_median S"
      using cs by simp
  qed
qed

theorem calculate_stats_permutation_median_witness:
  "mset [3, 1, 2] = mset [1, 2, 3 :: real] \<and>
   calculate_stats [3, 1, 2] = calculate_stats [1, 2, 3] \<and>
   [1, 2, 3 :: real] \<noteq> [] \<and>
   (\<exists>r. calculate_stats [1, 2, 3] = Inr r \<and> median r = order_statistic_median [1, 2, 3])"
  using calculate_stats_permutation_median[of "[3, 1, 2]" "[1, 2, 3]"] by simp

text \<open>
  Claim C8. For a non-empty sequence of length \<open>n\<close> both percentile indices lie in
  \<open>0 \<le> i < n\<close>, both lookups into the sorted copy succeed, and \<open>calculate_stats\<close>
  returns a record.
\<close>

theorem percentile_indices_in_bounds:
  assumes "samples \<noteq> []"
  shows "0 \<le> p10_idx (length (sort samples)) \<and>
         p10_idx (length (sort samples)) < int (length (sort samples)) \<and>
         0 \<le> p90_idx (length (sort samples)) \<and>
         p90_idx (length (sort samples)) < int (length (sort samples)) \<and>
         py_getitem (sort samples) (p10_idx (length (sort samples))) =
           Inr (sort samples ! nat (p10_idx (length (sort samples)))) \<and>
         py_getitem (sort samples) (p90_idx (length (sort samples))) =
           Inr (sort samples ! nat (p90_idx (length (sort samples)))) \<and>
         (\<exists>r. calculate_stats samples = Inr r)"
proof -
  have n: "0 < length (sort samples)" using assms by simp
  show ?thesis
    using idx_bounds[OF n] calculate_stats_nonempty[OF assms]
    by (auto intro: py_getitem_in_range)
qed

theorem percentile_indices_in_bounds_witness:
  "[5, 3, 4 :: real] \<noteq> [] \<and>
   p10_idx (length (sort [5, 3, 4 :: real])) = 0 \<and>
   p90_idx (length (sort [5, 3, 4 :: real])) = 2 \<and>
   py_getitem (sort [5, 3, 4 :: real]) (p10_idx (length (sort [5, 3, 4 :: real]))) = Inr 3 \<and>
   py_getitem (sort [5, 3, 4 :: real]) (p90_idx (length (sort [5, 3, 4 :: real]))) = Inr 5 \<and>
   (\<exists>r. calculate_stats [5, 3, 4] = Inr r)"
  using percentile_indices_in_bounds[of "[5, 3, 4]"]
  by (simp add: p10_idx_eq p90_idx_eq)

section \<open>The built report\<close>

lemma calculate_stats_returns: "\<exists>s. calculate_stats samples = Inr s"
proof (cases "samples = []")
  case True then show ?thesis by (simp add: calculate_stats_def)
next
  case False
  from calculate_stats_nonempty[OF False] show ?thesis by blast
qed

lemma build_report_returns:
  assumes b: "calculate_stats (get_or (baseline_samples rs) []) = Inr bs"
      and c: "calculate_stats (get_or (optimized_samples rs) []) = Inr os"
  shows "build_report sha env rs ev md cl bi bv oi ov =
     Inr (JObj
       [(''schema_version'', JStr ''1.0.0''),
        (''meta'', report_meta sha env md),
        (''benchmark'', report_benchmark rs cl bi bv oi ov),
        (''runs'',
           JObj [(''baseline'', report_run bi bv (get_or (baseline_samples rs) [])),
                 (''optimized'', report_run oi ov (get_or (optimized_samples rs) []))]),
        (''summary'',
           report_summary bs os (median bs - median os)
             (if median bs > 0 then (median bs - median os) / median bs * 100 else 0)
             (determine_verdict bs os)),
        (''evidence'', ev),
        (''impact'',
           JObj [(''inputs'', impact_inputs_json default_impact_inputs),
                 (''outputs'',
                    impact_outputs_json
                      (calculate_impact (median bs - median os) default_impact_inputs))]),
        (''artifacts'', report_artifacts)])"
  unfolding build_report_def Let_def by (simp only: b c py_bind_def sum.case)

lemma report_cpu_affinity:
  "json_path (JObj
       [(''schema_version'', a), (''meta'', b),
        (''benchmark'', report_benchmark rs cl bi bv oi ov), (''runs'', d),
        (''summary'', s), (''evidence'', e), (''impact'', f),
        (''artifacts'', h)]) [''benchmark'', ''cpu_affinity''] =
     Some (cpu_affinity_or_2 (cpu_affinity rs))"
  by (simp add: report_benchmark_def)

text \<open>
  Claim C9. \<open>build_report\<close> returns a report on every runner summary whose sample
  sequences, where present, are lists of floats. The report has all eight sections, each
  built from the arguments: the runs hold the sample sequences, the summary holds the two
  statistics records, their delta, the gain percent and the verdict, and the impact holds
  the projection of the delta. An absent \<open>baseline_samples\<close> key (likewise
  \<open>optimized_samples\<close>) reads as the empty sequence: its run has no samples and no
  status entries, its statistics record is all zero, and the report is the one built with the
  key set to the empty list. Whenever the baseline median is not strictly positive, the
  reported gain percent is 0.
\<close>

theorem build_report_missing_samples:
  "\<exists>report bs os.
     build_report sha env rs ev md cl bi bv oi ov = Inr report \<and>
     calculate_stats (get_or (baseline_samples rs) []) = Inr bs \<and>
     calculate_stats (get_or (optimized_samples rs) []) = Inr os \<and>
     (\<exists>fields. report = JObj fields \<and>
        map fst fields = [''schema_version'', ''meta'', ''benchmark'', ''runs'', ''summary'',
                          ''evidence'', ''impact'', ''artifacts'']) \<and>
     json_path report [''schema_version''] = Some (JStr ''1.0.0'') \<and>
     json_path report [''meta''] = Some (report_meta sha env md) \<and>
     json_path report [''benchmark''] = Some (report_benchmark rs cl bi bv oi ov) \<and>
     json_path report [''runs'', ''baseline''] =
       Some (report_run bi bv (get_or (baseline_samples rs) [])) \<and>
     json_path report [''runs'', ''optimized''] =
       Some (report_run oi ov (get_or (optimized_samples rs) [])) \<and>
     json_path report [''summary'', ''baseline_stats''] = Some (stats_json bs) \<and>
     json_path report [''summary'', ''optimized_stats''] = Some (stats_json os) \<and>
     json_path report [''summary'', ''delta_ms''] = Some (JFloat (median bs - median os)) \<and>
     json_path report [''summary'', ''gain_pct''] =
       Some (JFloat (if median bs > 0 then (median bs - median os) / median bs * 100 else 0)) \<and>
     json_path report [''summary'', ''verdict''] = Some (JStr (determine_verdict bs os)) \<and>
     json_path report [''evidence''] = Some ev \<and>
     json_path report [''impact'', ''inputs''] =
       Some (impact_inputs_json default_impact_inputs) \<and>
     json_path report [''impact'', ''outputs''] =
       Some (impact_outputs_json
               (calculate_impact (median bs - median os) default_impact_inputs)) \<and>
     json_path report [''artifacts''] = Some report_artifacts \<and>
     (baseline_samples rs = None \<longrightarrow>
        bs = \<lparr>median = 0, mean = 0, std = 0, cv_pct = 0, p10 = 0, p90 = 0\<rparr> \<and>
        json_path report [''runs'', ''baseline'', ''samples''] = Some (JList []) \<and>
        json_path report [''runs'', ''baseline'', ''status''] = Some (JList []) \<and>
        json_path report [''runs'', ''baseline'', ''errors''] = Some (JList []) \<and>
        json_path report [''summary'', ''baseline_stats''] =
          Some (JObj [(''median'', JFloat 0), (''mean'', JFloat 0), (''std'', JFloat 0),
                      (''cv_pct'', JFloat 0), (''p10'', JFloat 0), (''p90'', JFloat 0)]) \<and>
        build_report sha env rs ev md cl bi bv oi ov =
          build_report sha env (rs\<lparr>baseline_samples := Some []\<rparr>) ev md cl bi bv oi ov) \<and>
     (optimized_samples rs = None \<longrightarrow>
        os = \<lparr>median = 0, mean = 0, std = 0, cv_pct = 0, p10 = 0, p90 = 0\<rparr> \<and>
        json_path report [''runs'', ''optimized'', ''samples''] = Some (JList []) \<and>
        json_path report [''runs'', ''optimized'', ''status''] = Some (JList []) \<and>
        json_path report [''runs'', ''optimized'', ''errors''] = Some (JList []) \<and>
        json_path report [''summary'', ''optimized_stats''] =
          Some (JObj [(''median'', JFloat 0), (''mean'', JFloat 0), (''std'', JFloat 0),
                      (''cv_pct'', JFloat 0), (''p10'', JFloat 0), (''p90'', JFloat 0)]) \<and>
        build_report sha env rs ev md cl bi bv oi ov =
          build_report sha env (rs\<lparr>optimized_samples := Some []\<rparr>) ev md cl bi bv oi ov) \<and>
     (median bs \<le> 0 \<longrightarrow>
        json_path report [''summary'', ''gain_pct''] = Some (JFloat 0))"
proof -
  obtain bs where bs: "calculate_stats (get_or (baseline_samples rs) []) = Inr bs"
    using calculate_stats_returns by blast
  obtain os where os: "calculate_stats (get_or (optimized_samples rs) []) = Inr os"
    using calculate_stats_returns by blast
  note r = build_report_returns[OF bs os, of sha env ev md cl bi bv oi ov]
  have b0: "baseline_samples rs = None \<longrightarrow>
      bs = \<lparr>median = 0, mean = 0, std = 0, cv_pct = 0, p10 = 0, p90 = 0\<rparr>"
    using bs by (auto simp: get_or_def calculate_stats_def zero_stats_def)
  have o0: "optimized_samples rs = None \<longrightarrow>
      os = \<lparr>median = 0, mean = 0, std = 0, cv_pct = 0, p10 = 0, p90 = 0\<rparr>"
    using os by (auto simp: get_or_def calculate_stats_def zero_stats_def)
  have eb: "baseline_samples rs = None \<longrightarrow>
      build_report sha env rs ev md cl bi bv oi ov =
      build_report sha env (rs\<lparr>baseline_samples := Some []\<rparr>) ev md cl bi bv oi ov"
    by (simp add: build_report_def report_benchmark_def get_or_def)
  have eo: "optimized_samples rs = None \<longrightarrow>
      build_report sha env rs ev md cl bi bv oi ov =
      build_report sha env (rs\<lparr>optimized_samples := Some []\<rparr>) ev md cl bi bv oi ov"
    by (simp add: build_report_def report_benchmark_def get_or_def)
  show ?thesis
    apply (rule exI[of _ "JObj
       [(''schema_version'', JStr ''1.0.0''),
        (''meta'', report_meta sha env md),
        (''benchmark'', report_benchmark rs cl bi bv oi ov),
        (''runs'',
           JObj [(''baseline'', report_run bi bv (get_or (baseline_samples rs) [])),
                 (''optimized'', report_run oi ov (get_or (optimized_samples rs) []))]),
        (''summary'',
           report_summary bs os (median bs - median os)
             (if median bs > 0 then (median bs - median os) / median bs * 100 else 0)
             (determine_verdict bs os)),
        (''evidence'', ev),
        (''impact'',
           JObj [(''inputs'', impact_inputs_json default_impact_inputs),
                 (''outputs'',
                    impact_outputs_json
                      (calculate_impact (median bs - median os) default_impact_inputs))]),
        (''artifacts'', report_artifacts)]"])
    apply (rule exI[of _ bs], rule exI[of _ os])
    apply (intro conjI)
    apply (rule r, rule bs, rule os)
    using b0 o0 eb eo
    by (simp_all add: report_summary_def report_run_def stats_json_def get_or_def)
qed


theorem build_report_missing_samples_witness:
  "baseline_samples empty_summary = None \<and>
   optimized_samples empty_summary = None \<and>
   (\<exists>report.
      build_report (\<lambda>b. ''00'') example_env empty_summary (JObj [(''available'', JBool False)]) []
        [] ''python'' ''naive'' ''python'' ''numpy'' = Inr report \<and>
      build_report (\<lambda>b. ''00'') example_env (empty_summary\<lparr>baseline_samples := Some []\<rparr>)
        (JObj [(''available'', JBool False)]) [] [] ''python'' ''naive'' ''python'' ''numpy''
        = Inr report \<and>
      json_path report [''runs'', ''baseline'', ''samples''] = Some (JList []) \<and>
      json_path report [''runs'', ''optimized'', ''samples''] = Some (JList []) \<and>
      json_path report [''summary'', ''baseline_stats''] =
        Some (JObj [(''median'', JFloat 0), (''mean'', JFloat 0), (''std'', JFloat 0),
                    (''cv_pct'', JFloat 0), (''p10'', JFloat 0), (''p90'', JFloat 0)]) \<and>
      json_path report [''summary'', ''delta_ms''] = Some (JFloat 0) \<and>
      json_path report [''summary'', ''gain_pct''] = Some (JFloat 0) \<and>
      json_path report [''summary'', ''verdict''] = Some (JStr ''conclusive'') \<and>
      json_path report [''evidence''] = Some (JObj [(''available'', JBool False)]))"
proof -
  have n: "baseline_samples empty_summary = None" "optimized_samples empty_summary = None"
    by (simp_all add: empty_summary_def)
  have v: "determine_verdict \<lparr>median = 0, mean = 0, std = 0, cv_pct = 0, p10 = 0, p90 = 0\<rparr>
             \<lparr>median = 0, mean = 0, std = 0, cv_pct = 0, p10 = 0, p90 = 0\<rparr> = ''conclusive''"
    by (simp add: determine_verdict_def)
  from build_report_missing_samples[of "\<lambda>b. ''00''" example_env empty_summary
      "JObj [(''available'', JBool False)]" "[]" "[]" "''python''" "''naive''"
      "''python''" "''numpy''"]
  show ?thesis using n v by (elim exE conjE) (auto simp del: json_path.simps)
qed

text \<open>
  Claim C10. The report's \<open>benchmark.cpu_affinity\<close> is the runner summary's value
  exactly when that value is truthy. When the key is absent, or its value is null, 0 or any
  other falsy value, the report records 2: a recorded affinity of core 0 is reported as
  core 2.
\<close>

theorem build_report_cpu_affinity:
  "\<exists>report. build_report sha env rs ev md cl bi bv oi ov = Inr report \<and>
     (\<forall>v. cpu_affinity rs = Some v \<longrightarrow>
        (json_path report [''benchmark'', ''cpu_affinity''] = Some v \<longleftrightarrow> py_truthy v)) \<and>
     (\<forall>v. cpu_affinity rs = Some v \<and> \<not> py_truthy v \<longrightarrow>
        json_path report [''benchmark'', ''cpu_affinity''] = Some (JInt 2)) \<and>
     (cpu_affinity rs = None \<or> cpu_affinity rs = Some JNull \<or> cpu_affinity rs = Some (JInt 0)
        \<longrightarrow> json_path report [''benchmark'', ''cpu_affinity''] = Some (JInt 2))"
proof -
  obtain bs where bs: "calculate_stats (get_or (baseline_samples rs) []) = Inr bs"
    using calculate_stats_returns by blast
  obtain os where os: "calculate_stats (get_or (optimized_samples rs) []) = Inr os"
    using calculate_stats_returns by blast
  note r = build_report_returns[OF bs os, of sha env ev md cl bi bv oi ov]
  show ?thesis
    unfolding r
    by (rule exI, rule conjI, rule refl, simp only: report_cpu_affinity)
       (auto simp: cpu_affinity_or_2_def get_or_def)
qed

theorem build_report_cpu_affinity_witness:
  "cpu_affinity (empty_summary\<lparr>cpu_affinity := Some (JInt 0)\<rparr>) = Some (JInt 0) \<and>
   \<not> py_truthy (JInt 0) \<and>
   (\<exists>report.
      build_report (\<lambda>b. ''00'') example_env (empty_summary\<lparr>cpu_affinity := Some (JInt 0)\<rparr>)
        (JObj [(''available'', JBool False)]) [] [] ''python'' ''naive'' ''python'' ''numpy''
        = Inr report \<and>
      json_path report [''benchmark'', ''cpu_affinity''] = Some (JInt 2))"
  using build_report_cpu_affinity[of "\<lambda>b. ''00''" example_env
      "empty_summary\<lparr>cpu_affinity := Some (JInt 0)\<rparr>"
      "JObj [(''available'', JBool False)]" "[]" "[]" "''python''" "''naive''"
      "''python''" "''numpy''"]
  by auto

section \<open>Generating and verifying a dataset\<close>











lemma verify_dataset_wrong_count:
  assumes m: "dir ''metadata.json'' = Some mb"
      and l: "json_load lib mb = Inr (dataset_metadata N M D seed h)"
      and ef: "dir ''embeddings.f64'' = Some emb"
      and af: "dir ''axes.f64'' = Some ax"
      and n: "0 \<le> N" "0 \<le> D"
      and c: "int (length emb div 8) \<noteq> N * D"
  shows "verify_dataset lib dir = Inl ValueError"
proof -
  have "length (np_fromfile emb) div 8 = length emb div 8"
    by (simp add: np_fromfile_def)
  then have re: "np_reshape (np_fromfile emb) (JInt N) (JInt D) = Inl ValueError"
    using n c by (simp add: np_reshape_def py_bind_def Let_def)
  show ?thesis
    unfolding verify_dataset_def
    by (simp add: m l ef af py_bind_def dataset_metadata_def re)
qed

text \<open>
  Claim C4. \<open>verify_dataset\<close> is said to return false with a diagnostic, and never to
  raise, on a missing file, a shape mismatch or a hash mismatch. A missing descriptor does
  give false, but an array file that does not hold the recorded number of elements makes
  \<open>reshape\<close> raise: on the one-by-one dataset with \<open>embeddings.f64\<close> cut to four bytes
  the call ends in \<open>ValueError\<close>.
\<close>

theorem verify_dataset_truncated_raises:
  "verify_dataset example_library Map.empty = Inr (False, MetadataNotFound) \<and>
   verify_dataset example_library
     [''metadata.json'' \<mapsto> [], ''embeddings.f64'' \<mapsto> [0, 0, 0, 0],
      ''axes.f64'' \<mapsto> [0, 0, 0, 0, 0, 0, 0, 0]] = Inl ValueError"
  by (rule conjI, simp add: verify_dataset_def, rule verify_dataset_wrong_count[where N = 1 and D = 1 and M = 1 and seed = 42
        and h = "''00''" and mb = "[]" and emb = "[0, 0, 0, 0]"
        and ax = "[0, 0, 0, 0, 0, 0, 0, 0]"])
     (simp_all add: example_library_def)

section \<open>Rounding to binary64\<close>

lemma round_half_even_err: "\<bar>of_int (round_half_even t) - t\<bar> \<le> 1 / 2"
proof -
  have "of_int \<lfloor>t\<rfloor> \<le> t" "t < of_int \<lfloor>t\<rfloor> + 1" by linarith+
  then show ?thesis
    by (auto simp: round_half_even_def Let_def abs_le_iff)
qed

lemma round_half_even_of_int [simp]: "round_half_even (of_int k) = k"
  by (simp add: round_half_even_def)

lemma round_half_even_half [simp]: "round_half_even (1 / 2) = 0"
  by (simp add: round_half_even_def)

lemma round_half_even_abs_le:
  assumes "\<bar>t\<bar> < of_int K"
  shows "\<bar>round_half_even t\<bar> \<le> K"
proof -
  have "\<bar>of_int (round_half_even t) :: real\<bar> < of_int K + 1"
    using round_half_even_err[of t] assms by linarith
  then have "\<bar>round_half_even t\<bar> < K + 1"
    by (metis of_int_abs of_int_less_iff of_int_add of_int_1)
  then show ?thesis by simp
qed

lemma f64_quantum_pos: "0 < f64_quantum x"
  by (simp add: f64_quantum_def)

lemma floor_log2:
  assumes "0 < y" "2 powr of_int e \<le> y" "y < 2 powr (of_int e + 1)"
  shows "\<lfloor>log 2 y\<rfloor> = e"
proof -
  have "of_int e \<le> log 2 y" using assms by (simp add: le_log_iff)
  moreover have "log 2 y < of_int e + 1" using assms by (simp add: log_less_iff)
  ultimately show ?thesis by linarith
qed

lemma log2_bounds:
  assumes "0 < y"
  shows "2 powr of_int \<lfloor>log 2 y\<rfloor> \<le> y" "y < 2 powr (of_int \<lfloor>log 2 y\<rfloor> + 1)"
proof -
  show "2 powr of_int \<lfloor>log 2 y\<rfloor> \<le> y"
    using le_log_iff[of 2 y "of_int \<lfloor>log 2 y\<rfloor>"] assms by simp
  have "log 2 y < of_int \<lfloor>log 2 y\<rfloor> + 1" by linarith
  then show "y < 2 powr (of_int \<lfloor>log 2 y\<rfloor> + 1)"
    using log_less_iff[of 2 y "of_int \<lfloor>log 2 y\<rfloor> + 1"] assms by simp
qed


lemma powr_1022_split: "(2::real) powr (- 1022) = 2 ^ 52 * 2 powr (- 1074)"
proof -
  have "(2::real) powr (52 + (- 1074)) = 2 powr 52 * 2 powr (- 1074)"
    by (rule powr_add)
  moreover have "(52::real) + (- 1074) = - 1022" by simp
  moreover have "(2::real) powr 52 = 2 ^ 52"
    using powr_realpow[of 2 52] by simp
  ultimately show ?thesis by (simp only:)
qed

lemma f64_nearest_subnormal_le:
  assumes "\<bar>x\<bar> < 2 powr (- 1022)"
  shows "\<bar>f64_nearest x\<bar> \<le> 2 powr (- 1022)"
proof -
  let ?u = "(2::real) powr (- 1074)"
  have q: "f64_quantum x = ?u" using assms by (simp add: f64_quantum_def)
  have u: "0 < ?u" by simp
  have "\<bar>x / ?u\<bar> = \<bar>x\<bar> / ?u" by simp
  also have "\<dots> < 2 ^ 52"
    using assms u by (simp add: pos_divide_less_eq powr_1022_split)
  finally have "\<bar>x / ?u\<bar> < of_int (2 ^ 52)" by simp
  then have "\<bar>round_half_even (x / ?u)\<bar> \<le> 2 ^ 52"
    by (rule round_half_even_abs_le)
  then have "\<bar>of_int (round_half_even (x / ?u)) :: real\<bar> \<le> 2 ^ 52"
    by (metis of_int_abs of_int_le_iff of_int_numeral of_int_power)
  then have "\<bar>of_int (round_half_even (x / ?u)) * ?u\<bar> \<le> 2 ^ 52 * ?u"
    using u by (simp add: abs_mult)
  then show ?thesis by (simp add: f64_nearest_def q powr_1022_split)
qed

lemma f64_quantum_double:
  assumes "2 powr (- 1022) \<le> \<bar>x\<bar>"
  shows "f64_quantum (2 * x) = 2 * f64_quantum x"
proof -
  have "0 < (2::real) powr (- 1022)" by simp
  then have pos: "0 < \<bar>x\<bar>" using assms by linarith
  have x2: "2 powr (- 1022) \<le> \<bar>2 * x\<bar>" using assms by simp
  have "log 2 \<bar>2 * x\<bar> = 1 + log 2 \<bar>x\<bar>"
    using pos by (simp add: abs_mult log_mult)
  then have "\<lfloor>log 2 \<bar>2 * x\<bar>\<rfloor> = 1 + \<lfloor>log 2 \<bar>x\<bar>\<rfloor>" by simp
  then have "f64_quantum (2 * x) = 2 powr (1 + (of_int \<lfloor>log 2 \<bar>x\<bar>\<rfloor> - 52))"
    using x2 by (simp add: f64_quantum_def)
  also have "\<dots> = 2 * 2 powr (of_int \<lfloor>log 2 \<bar>x\<bar>\<rfloor> - 52)"
    by (simp only: powr_add) simp
  finally show ?thesis using assms by (simp add: f64_quantum_def)
qed

lemma f64_nearest_double:
  assumes "2 powr (- 1022) \<le> \<bar>x\<bar>"
  shows "f64_nearest (2 * x) = 2 * f64_nearest x"
  using f64_quantum_pos[of x]
  by (simp add: f64_nearest_def f64_quantum_double[OF assms])

lemma f64_round_double:
  assumes r: "f64_round x = Some r"
      and n: "2 powr (- 1022) < \<bar>r\<bar>"
      and f: "f64_round (2 * x) \<noteq> None"
  shows "f64_round (2 * x) = Some (2 * r)"
proof -
  have rn: "r = f64_nearest x" using r by (simp add: f64_round_def split: if_splits)
  have "2 powr (- 1022) \<le> \<bar>x\<bar>"
  proof (rule ccontr)
    assume "\<not> 2 powr (- 1022) \<le> \<bar>x\<bar>"
    then have "\<bar>x\<bar> < 2 powr (- 1022)" by simp
    from f64_nearest_subnormal_le[OF this] n rn show False by simp
  qed
  then have "f64_nearest (2 * x) = 2 * r" using rn by (simp add: f64_nearest_double)
  then show ?thesis using f by (simp add: f64_round_def split: if_splits)
qed


lemma round_half_even_ge:
  assumes "of_int K \<le> t"
  shows "K \<le> round_half_even t"
proof -
  have "of_int K - 1 < (of_int (round_half_even t) :: real)"
    using round_half_even_err[of t] assms by linarith
  then have "K - 1 < round_half_even t"
    by (metis of_int_less_iff of_int_diff of_int_1)
  then show ?thesis by simp
qed

lemma round_half_even_le:
  assumes "t \<le> of_int K"
  shows "round_half_even t \<le> K"
proof -
  have "(of_int (round_half_even t) :: real) < of_int K + 1"
    using round_half_even_err[of t] assms by linarith
  then have "round_half_even t < K + 1"
    by (metis of_int_less_iff of_int_add of_int_1)
  then show ?thesis by simp
qed

lemma f64_quantum_min_normal: "f64_quantum (2 powr (- 1022)) = 2 powr (- 1074)"
proof -
  have "\<lfloor>log 2 ((2::real) powr (- 1022))\<rfloor> = - 1022" by simp
  then show ?thesis by (simp add: f64_quantum_def)
qed

lemma f64_quantum_le_min_normal:
  assumes "\<bar>r\<bar> \<le> 2 powr (- 1022)"
  shows "f64_quantum r = 2 powr (- 1074)"
proof (cases "\<bar>r\<bar> < 2 powr (- 1022)")
  case True
  then show ?thesis by (simp add: f64_quantum_def)
next
  case False
  then have "\<bar>r\<bar> = 2 powr (- 1022)" using assms by simp
  then have "f64_quantum r = f64_quantum (2 powr (- 1022))"
    by (simp add: f64_quantum_def)
  then show ?thesis by (simp only: f64_quantum_min_normal)
qed

lemma f64_nearest_multiple:
  assumes "f64_quantum (of_int k * q) = q" "0 < q"
  shows "f64_nearest (of_int k * q) = of_int k * q"
  using assms by (simp add: f64_nearest_def)

lemma f64_nearest_idem: "f64_nearest (f64_nearest x) = f64_nearest x"
proof (cases "\<bar>x\<bar> < 2 powr (- 1022)")
  case True
  let ?u = "(2::real) powr (- 1074)"
  have q: "f64_quantum x = ?u" using True by (simp add: f64_quantum_def)
  have r: "f64_nearest x = of_int (round_half_even (x / ?u)) * ?u"
    by (simp add: f64_nearest_def q)
  have "f64_quantum (f64_nearest x) = ?u"
    by (rule f64_quantum_le_min_normal[OF f64_nearest_subnormal_le[OF True]])
  then show ?thesis
    unfolding r by (intro f64_nearest_multiple) simp_all
next
  case False
  then have n: "2 powr (- 1022) \<le> \<bar>x\<bar>" by simp
  have "0 < (2::real) powr (- 1022)" by simp
  then have xpos: "0 < \<bar>x\<bar>" using n by linarith
  define e where "e = \<lfloor>log 2 \<bar>x\<bar>\<rfloor>"
  define Q where "Q = (2::real) powr of_int e"
  define q where "q = (2::real) powr (of_int e - 52)"
  define k where "k = round_half_even (x / q)"
  have Qpos: "0 < Q" by (simp add: Q_def)
  have qpos: "0 < q" by (simp add: q_def)
  have lb: "Q \<le> \<bar>x\<bar>" and ub: "\<bar>x\<bar> < 2 * Q"
    using log2_bounds[OF xpos] by (simp_all add: Q_def e_def powr_add)
  have "(2::real) powr ((of_int e - 52) + 52) = 2 powr (of_int e - 52) * 2 powr 52"
    by (rule powr_add)
  moreover have "((of_int e - 52) + 52 :: real) = of_int e" by simp
  moreover have "(2::real) powr 52 = 2 ^ 52" using powr_realpow[of 2 52] by simp
  ultimately have "(2::real) powr of_int e = 2 powr (of_int e - 52) * 2 ^ 52"
    by (simp only:)
  then have Qq: "Q = 2 ^ 52 * q" by (simp only: Q_def q_def mult.commute)
  have qx: "f64_quantum x = q" using False by (simp add: f64_quantum_def q_def e_def)
  have r: "f64_nearest x = of_int k * q" by (simp add: f64_nearest_def qx k_def)
  have e_lb: "- 1022 \<le> e"
  proof -
    have "(2::real) powr (- 1022) < 2 powr (of_int e + 1)"
      using n ub by (simp add: Q_def powr_add)
    then have "(- 1022 :: real) < of_int e + 1" by simp
    then show ?thesis by linarith
  qed
  then have Qn: "2 powr (- 1022) \<le> Q"
    unfolding Q_def by (intro powr_mono) simp_all
  have t_lb: "2 ^ 52 \<le> \<bar>x / q\<bar>"
    using lb qpos by (simp add: Qq pos_le_divide_eq)
  have t_ub: "\<bar>x / q\<bar> < 2 ^ 53"
    using ub qpos by (simp add: Qq pos_divide_less_eq)
  have k_ub: "\<bar>k\<bar> \<le> 2 ^ 53"
    unfolding k_def using t_ub by (intro round_half_even_abs_le) simp
  have k_lb: "2 ^ 52 \<le> \<bar>k\<bar>"
  proof (cases "0 \<le> x / q")
    case True
    then have "of_int (2 ^ 52) \<le> x / q" using t_lb by simp
    from round_half_even_ge[OF this] show ?thesis by (simp add: k_def)
  next
    case False
    then have "x / q \<le> of_int (- (2 ^ 52))" using t_lb by simp
    from round_half_even_le[OF this] show ?thesis by (simp add: k_def)
  qed
  have ak: "\<bar>of_int k * q\<bar> = of_int \<bar>k\<bar> * q" using qpos by (simp add: abs_mult)
  have r_lb: "Q \<le> \<bar>of_int k * q\<bar>"
  proof -
    have "(2 ^ 52 :: real) \<le> of_int \<bar>k\<bar>" using k_lb by (metis of_int_le_iff of_int_numeral of_int_power)
    then have "2 ^ 52 * q \<le> of_int \<bar>k\<bar> * q" using qpos by (intro mult_right_mono) simp_all
    then show ?thesis by (simp only: ak Qq)
  qed
  have rpos: "0 < \<bar>of_int k * q\<bar>" using r_lb Qpos by linarith
  show ?thesis
  proof (cases "\<bar>k\<bar> < 2 ^ 53")
    case True
    have "(of_int \<bar>k\<bar> :: real) < 2 ^ 53" using True by (metis of_int_less_iff of_int_numeral of_int_power)
    then have "of_int \<bar>k\<bar> * q < 2 ^ 53 * q" using qpos by (intro mult_strict_right_mono) simp_all
    then have r_ub: "\<bar>of_int k * q\<bar> < 2 * Q" by (simp add: ak Qq)
    have "\<lfloor>log 2 \<bar>of_int k * q\<bar>\<rfloor> = e"
    proof (rule floor_log2)
      show "0 < \<bar>of_int k * q\<bar>" by (rule rpos)
      show "2 powr of_int e \<le> \<bar>of_int k * q\<bar>" using r_lb by (simp only: Q_def)
      show "\<bar>of_int k * q\<bar> < 2 powr (of_int e + 1)"
        using r_ub by (simp only: Q_def powr_add) simp
    qed
    moreover have "\<not> \<bar>of_int k * q\<bar> < 2 powr (- 1022)" using r_lb Qn by linarith
    ultimately have "f64_quantum (of_int k * q) = q"
      by (simp add: f64_quantum_def q_def)
    then show ?thesis unfolding r using qpos by (rule f64_nearest_multiple)
  next
    case False
    then have keq: "\<bar>k\<bar> = 2 ^ 53" using k_ub by simp
    then have akq: "\<bar>of_int k * q\<bar> = 2 * Q" by (simp add: ak Qq)
    have "\<lfloor>log 2 \<bar>of_int k * q\<bar>\<rfloor> = e + 1"
    proof (rule floor_log2)
      show "0 < \<bar>of_int k * q\<bar>" by (rule rpos)
      show "2 powr of_int (e + 1) \<le> \<bar>of_int k * q\<bar>"
        unfolding akq by (simp add: Q_def powr_add)
      show "\<bar>of_int k * q\<bar> < 2 powr (of_int (e + 1) + 1)"
        unfolding akq using Qpos by (simp add: Q_def powr_add)
    qed
    moreover have "\<not> \<bar>of_int k * q\<bar> < 2 powr (- 1022)" using r_lb Qn by linarith
    ultimately have q2: "f64_quantum (of_int k * q) = 2 * q"
      by (simp add: f64_quantum_def q_def powr_add powr_diff)
    have "even k" using keq by (metis even_abs_add_iff even_add even_numeral even_power zero_less_numeral)
    then obtain j where j: "k = 2 * j" by (elim evenE)
    have kj: "of_int k * q = of_int j * (2 * q)" by (simp add: j)
    have "f64_quantum (of_int j * (2 * q)) = 2 * q" using q2 by (simp only: kj)
    then have "f64_nearest (of_int j * (2 * q)) = of_int j * (2 * q)"
      using qpos by (intro f64_nearest_multiple) simp_all
    then show ?thesis unfolding r by (simp only: kj)
  qed
qed

lemma f64_round_idem: "f64_round x = Some r \<Longrightarrow> f64_round r = Some r"
  by (auto simp: f64_round_def f64_nearest_idem split: if_splits)

lemma f64_max_ge: "2 ^ 53 - 1 \<le> f64_max"
proof -
  have "(1::real) \<le> 2 powr 971" by (rule ge_one_powr_ge_zero) simp_all
  then have "(2 ^ 53 - 1) * (1::real) \<le> (2 ^ 53 - 1) * 2 powr 971"
    by (intro mult_left_mono) simp_all
  then show ?thesis by (simp add: f64_max_def)
qed

lemma f64_max_ge_1: "1 \<le> f64_max"
  using f64_max_ge by simp

lemma min_normal_le_1: "(2::real) powr (- 1022) \<le> 1"
  using powr_mono[of "- 1022" 0 "2::real"] by simp

lemma f64_round_subnormal:
  assumes "\<bar>k\<bar> < 2 ^ 52"
  shows "f64_round (of_int k * 2 powr (- 1074)) = Some (of_int k * 2 powr (- 1074))"
proof -
  let ?u = "(2::real) powr (- 1074)"
  have u: "0 < ?u" by simp
  have "(of_int \<bar>k\<bar> :: real) < 2 ^ 52"
    using assms by (metis of_int_less_iff of_int_numeral of_int_power)
  then have "of_int \<bar>k\<bar> * ?u < 2 ^ 52 * ?u" using u by (intro mult_strict_right_mono) simp_all
  then have sub: "\<bar>of_int k * ?u\<bar> < 2 powr (- 1022)"
    by (simp add: abs_mult powr_1022_split)
  then have "f64_quantum (of_int k * ?u) = ?u" by (simp add: f64_quantum_def)
  then have "f64_nearest (of_int k * ?u) = of_int k * ?u"
    using u by (rule f64_nearest_multiple)
  moreover have "\<bar>of_int k * ?u\<bar> \<le> f64_max"
    using sub min_normal_le_1 f64_max_ge_1 by linarith
  ultimately show ?thesis by (simp add: f64_round_def)
qed

lemma f64_round_half_min: "f64_round (2 powr (- 1074) * (1 / 2)) = Some 0"
proof -
  let ?u = "(2::real) powr (- 1074)"
  have u: "0 < ?u" by simp
  have "?u * (1 / 2) < 2 ^ 52 * ?u" using u by simp
  then have "\<bar>?u * (1 / 2)\<bar> < 2 powr (- 1022)" by (simp add: powr_1022_split)
  then have "f64_quantum (?u * (1 / 2)) = ?u" by (simp add: f64_quantum_def)
  then have "f64_nearest (?u * (1 / 2)) = 0" by (simp add: f64_nearest_def)
  then show ?thesis using f64_max_ge_1 by (simp add: f64_round_def)
qed

lemma f64_round_exact:
  assumes x: "x = of_int m * 2 powr of_int j"
      and m: "m \<noteq> 0" "\<bar>m\<bar> < 2 ^ 53"
      and j: "- 1022 \<le> j" "j \<le> 0"
  shows "f64_round x = Some x"
proof -
  define e where "e = \<lfloor>log 2 \<bar>x\<bar>\<rfloor>"
  have am1: "(1::real) \<le> of_int \<bar>m\<bar>" using m(1) by simp
  have "\<bar>m\<bar> \<le> 2 ^ 53 - 1" using m(2) by simp
  then have "(of_int \<bar>m\<bar> :: real) \<le> of_int (2 ^ 53 - 1)" by (simp only: of_int_le_iff)
  then have am2: "(of_int \<bar>m\<bar> :: real) \<le> 2 ^ 53 - 1" by simp
  have ax: "\<bar>x\<bar> = of_int \<bar>m\<bar> * 2 powr of_int j" by (simp add: x abs_mult)
  have pj: "0 < (2::real) powr of_int j" by simp
  have "1 * 2 powr of_int j \<le> of_int \<bar>m\<bar> * (2::real) powr of_int j"
    using am1 by (intro mult_right_mono) simp_all
  then have x_lb: "2 powr of_int j \<le> \<bar>x\<bar>" by (simp only: ax mult_1)
  have "of_int \<bar>m\<bar> * (2::real) powr of_int j \<le> (2 ^ 53 - 1) * 2 powr of_int j"
    using am2 by (intro mult_right_mono) simp_all
  also have "\<dots> < 2 ^ 53 * 2 powr of_int j"
    using pj by (intro mult_strict_right_mono) simp_all
  finally have x_ub: "\<bar>x\<bar> < 2 ^ 53 * 2 powr of_int j" by (simp only: ax)
  have "(2::real) powr (- 1022) \<le> 2 powr of_int j" using j by (intro powr_mono) simp_all
  then have n: "2 powr (- 1022) \<le> \<bar>x\<bar>" using x_lb by linarith
  have "0 < (2::real) powr (- 1022)" by simp
  then have xpos: "0 < \<bar>x\<bar>" using n by linarith
  have p53: "(2::real) ^ 53 = 2 powr 53" using powr_realpow[of 2 53] by simp
  have "2 powr of_int e \<le> \<bar>x\<bar>" using log2_bounds(1)[OF xpos] by (simp only: e_def)
  then have "(2::real) powr of_int e < 2 powr 53 * 2 powr of_int j"
    using x_ub by (simp only: p53)
  then have "(2::real) powr of_int e < 2 powr (53 + of_int j)"
    by (simp only: powr_add)
  then have "(of_int e :: real) < 53 + of_int j" by simp
  then have e_ub: "e \<le> 52 + j" by linarith
  define p where "p = nat (52 + j - e)"
  have pe: "of_int j = (of_int e - 52 :: real) + real p" using e_ub by (simp add: p_def)
  have "(2::real) powr of_int j = 2 powr (of_int e - 52) * 2 powr real p"
    unfolding pe by (rule powr_add)
  moreover have "(2::real) powr real p = 2 ^ p" by (simp add: powr_realpow)
  ultimately have pj2: "(2::real) powr of_int j = 2 powr (of_int e - 52) * 2 ^ p"
    by (simp only:)
  have xq: "x = of_int (m * 2 ^ p) * 2 powr (of_int e - 52)"
    unfolding x pj2 by simp
  have q: "f64_quantum x = 2 powr (of_int e - 52)"
    using n by (simp add: f64_quantum_def e_def)
  have "f64_quantum (of_int (m * 2 ^ p) * 2 powr (of_int e - 52)) = 2 powr (of_int e - 52)"
    using q by (simp only: xq[symmetric])
  then have "f64_nearest (of_int (m * 2 ^ p) * 2 powr (of_int e - 52)) =
             of_int (m * 2 ^ p) * 2 powr (of_int e - 52)"
    by (rule f64_nearest_multiple) simp
  then have nx: "f64_nearest x = x" by (simp only: xq[symmetric])
  have "(2::real) powr of_int j \<le> 2 powr 0" using j by (intro powr_mono) simp_all
  then have "(2::real) powr of_int j \<le> 1" by simp
  then have "of_int \<bar>m\<bar> * 2 powr of_int j \<le> of_int \<bar>m\<bar> * (1::real)"
    by (intro mult_left_mono) simp_all
  then have "\<bar>x\<bar> \<le> f64_max" using am2 f64_max_ge by (simp only: ax)
  then show ?thesis by (simp add: f64_round_def nx)
qed

lemma f64_of_int_exact: "n \<noteq> 0 \<Longrightarrow> \<bar>n\<bar> < 2 ^ 53 \<Longrightarrow> f64_of_int n = Some (of_int n)"
  unfolding f64_of_int_def by (rule f64_round_exact[where m = n and j = 0]) simp_all

lemma sub_vals:
  "f64_round (14400 * 2 powr (- 1074)) = Some (14400 * 2 powr (- 1074))"
  "f64_round (3600000 * 2 powr (- 1074)) = Some (3600000 * 2 powr (- 1074))"
  "f64_round (28800 * 2 powr (- 1074)) = Some (28800 * 2 powr (- 1074))"
  "f64_round (7200000 * 2 powr (- 1074)) = Some (7200000 * 2 powr (- 1074))"
  "f64_round (288 * 2 powr (- 1074)) = Some (288 * 2 powr (- 1074))"
  "f64_round (2 * 2 powr (- 1074)) = Some (2 * 2 powr (- 1074))"
  "f64_round (2 powr (- 1074)) = Some (2 powr (- 1074))"
  "f64_round 0 = Some 0"
  using f64_round_subnormal[of 14400] f64_round_subnormal[of 3600000]
    f64_round_subnormal[of 28800] f64_round_subnormal[of 7200000]
    f64_round_subnormal[of 288] f64_round_subnormal[of 2] f64_round_subnormal[of 1]
    f64_round_subnormal[of 0]
  by simp_all

lemma int_vals:
  "f64_of_int 100 = Some 100" "f64_of_int 250 = Some 250"
  "f64_of_int 3600000 = Some 3600000" "f64_of_int 2 = Some 2"
  using f64_of_int_exact[of 100] f64_of_int_exact[of 250] f64_of_int_exact[of 3600000]
    f64_of_int_exact[of 2]
  by simp_all

lemma f64_round_nonpos: "x \<le> 0 \<Longrightarrow> f64_round x = Some r \<Longrightarrow> r \<le> 0"
proof -
  assume x: "x \<le> 0" and r: "f64_round x = Some r"
  have "x / f64_quantum x \<le> of_int 0"
    using x f64_quantum_pos[of x] by (simp add: divide_nonpos_pos)
  then have "round_half_even (x / f64_quantum x) \<le> 0" by (rule round_half_even_le)
  then have "(of_int (round_half_even (x / f64_quantum x)) :: real) \<le> 0" by simp
  then have "f64_nearest x \<le> 0"
    using f64_quantum_pos[of x] by (simp add: f64_nearest_def mult_nonpos_nonneg)
  then show ?thesis using r by (simp add: f64_round_def split: if_splits)
qed

lemma f64_of_int_nonneg: "0 \<le> n \<Longrightarrow> f64_of_int n = Some v \<Longrightarrow> 0 \<le> v"
proof -
  assume n: "0 \<le> n" and v: "f64_of_int n = Some v"
  have "of_int 0 \<le> (of_int n :: real) / f64_quantum (of_int n)"
    using n f64_quantum_pos[of "of_int n"] by simp
  then have "0 \<le> round_half_even (of_int n / f64_quantum (of_int n))"
    by (rule round_half_even_ge)
  then have "0 \<le> f64_nearest (of_int n)"
    using f64_quantum_pos[of "of_int n"] by (simp add: f64_nearest_def)
  then show ?thesis using v by (simp add: f64_of_int_def f64_round_def split: if_splits)
qed

lemma f64_mul_nonpos:
  assumes "\<forall>x. a = Some x \<longrightarrow> x \<le> 0" "\<forall>y. b = Some y \<longrightarrow> 0 \<le> y"
  shows "\<forall>r. f64_mul a b = Some r \<longrightarrow> r \<le> 0"
proof (intro allI impI)
  fix r assume r: "f64_mul a b = Some r"
  then obtain x y where xy: "a = Some x" "b = Some y" and rr: "f64_round (x * y) = Some r"
    by (auto simp: f64_mul_def split: option.splits)
  have "x * y \<le> 0" using assms xy by (simp add: mult_nonpos_nonneg)
  then show "r \<le> 0" using rr by (rule f64_round_nonpos)
qed

lemma f64_div_nonpos:
  assumes "\<forall>x. a = Some x \<longrightarrow> x \<le> 0" "\<forall>y. b = Some y \<longrightarrow> 0 \<le> y"
  shows "\<forall>r. f64_div a b = Some r \<longrightarrow> r \<le> 0"
proof (intro allI impI)
  fix r assume r: "f64_div a b = Some r"
  then obtain x y where xy: "a = Some x" "b = Some y" and rr: "f64_round (x / y) = Some r"
    by (auto simp: f64_div_def split: option.splits if_splits)
  have "x / y \<le> 0" using assms xy by (simp add: divide_nonpos_nonneg)
  then show "r \<le> 0" using rr by (rule f64_round_nonpos)
qed

lemma calculate_impact_f64_nonpos:
  assumes d: "d < 0"
      and c: "0 \<le> executions_per_day cfg" "0 \<le> days_per_year cfg"
             "0 \<le> cost_per_hour_eur cfg" "0 \<le> electricity_kwh_per_hour cfg"
             "0 \<le> co2_kg_per_kwh cfg"
  shows "(\<forall>v. time_saved_hours_per_year_f64 (calculate_impact_f64 d cfg) = Some v \<longrightarrow> v \<le> 0) \<and>
         (\<forall>v. cost_saved_eur_per_year_f64 (calculate_impact_f64 d cfg) = Some v \<longrightarrow> v \<le> 0) \<and>
         (\<forall>v. electricity_saved_kwh_per_year_f64 (calculate_impact_f64 d cfg) = Some v
              \<longrightarrow> v \<le> 0) \<and>
         (\<forall>v. co2_avoided_kg_per_year_f64 (calculate_impact_f64 d cfg) = Some v \<longrightarrow> v \<le> 0)"
proof -
  let ?e = "f64_of_int (executions_per_day cfg)"
  let ?y = "f64_of_int (days_per_year cfg)"
  let ?k = "f64_of_int 3600000"
  have e: "\<forall>v. ?e = Some v \<longrightarrow> 0 \<le> v" using f64_of_int_nonneg[OF c(1)] by blast
  have y: "\<forall>v. ?y = Some v \<longrightarrow> 0 \<le> v" using f64_of_int_nonneg[OF c(2)] by blast
  have k: "\<forall>v. ?k = Some v \<longrightarrow> 0 \<le> v" using f64_of_int_nonneg[of 3600000] by simp
  have d0: "\<forall>x. Some d = Some x \<longrightarrow> x \<le> 0" using d by simp
  note s1 = f64_mul_nonpos[OF d0 e]
  note s2 = f64_mul_nonpos[OF s1 y]
  note h = f64_div_nonpos[OF s2 k]
  have cc: "\<forall>y. Some (cost_per_hour_eur cfg) = Some y \<longrightarrow> 0 \<le> y" using c(3) by simp
  have ce: "\<forall>y. Some (electricity_kwh_per_hour cfg) = Some y \<longrightarrow> 0 \<le> y" using c(4) by simp
  have ck: "\<forall>y. Some (co2_kg_per_kwh cfg) = Some y \<longrightarrow> 0 \<le> y" using c(5) by simp
  note cost = f64_mul_nonpos[OF h cc]
  note el = f64_mul_nonpos[OF h ce]
  note co2 = f64_mul_nonpos[OF el ck]
  show ?thesis
    using h cost el co2 by (simp add: calculate_impact_f64_def Let_def)
qed

lemma calculate_impact_negative:
  assumes "d < 0" "0 < executions_per_day cfg" "0 < days_per_year cfg"
          "0 < cost_per_hour_eur cfg" "0 < electricity_kwh_per_hour cfg"
          "0 < co2_kg_per_kwh cfg"
  shows "time_saved_hours_per_year (calculate_impact d cfg) < 0 \<and>
         cost_saved_eur_per_year (calculate_impact d cfg) < 0 \<and>
         electricity_saved_kwh_per_year (calculate_impact d cfg) < 0 \<and>
         co2_avoided_kg_per_year (calculate_impact d cfg) < 0"
proof -
  have "d * of_int (executions_per_day cfg) < 0" using assms by (simp add: mult_neg_pos)
  then have h: "d * of_int (executions_per_day cfg) * of_int (days_per_year cfg) / 3600000 < 0"
    using assms by (simp add: mult_neg_pos divide_neg_pos)
  then show ?thesis
    using assms by (simp add: calculate_impact_def Let_def mult_neg_pos)
qed

lemma f64_mul_None [simp]: "f64_mul None b = None"
  by (simp add: f64_mul_def)

lemma f64_div_None [simp]: "f64_div None b = None"
  by (simp add: f64_div_def)

lemma f64_cost_doubles:
  assumes s1: "f64_mul (Some d) (f64_of_int (executions_per_day cfg)) = Some x1"
      and s2: "f64_mul (Some x1) (f64_of_int (days_per_year cfg)) = Some x2"
      and s3: "f64_div (Some x2) (f64_of_int 3600000) = Some x3"
      and s4: "f64_mul (Some x3) (Some (cost_per_hour_eur cfg)) = Some x4"
      and n: "2 powr (- 1022) < \<bar>x1\<bar>" "2 powr (- 1022) < \<bar>x2\<bar>"
             "2 powr (- 1022) < \<bar>x3\<bar>" "2 powr (- 1022) < \<bar>x4\<bar>"
      and fin: "cost_saved_eur_per_year_f64 (calculate_impact_f64 (2 * d) cfg) \<noteq> None"
  shows "cost_saved_eur_per_year_f64 (calculate_impact_f64 d cfg) = Some x4"
    and "cost_saved_eur_per_year_f64 (calculate_impact_f64 (2 * d) cfg) = Some (2 * x4)"
    and "f64_mul (f64_of_int 2) (Some x4) = Some (2 * x4)"
proof -
  obtain ev where ev: "f64_of_int (executions_per_day cfg) = Some ev"
    using s1 by (auto simp: f64_mul_def split: option.splits)
  obtain yv where yv: "f64_of_int (days_per_year cfg) = Some yv"
    using s2 by (auto simp: f64_mul_def split: option.splits)
  obtain kv where kv: "f64_of_int 3600000 = Some kv" and kv0: "kv \<noteq> 0"
    using s3 by (auto simp: f64_div_def split: option.splits if_splits)
  let ?c = "cost_per_hour_eur cfg"
  have r1: "f64_round (d * ev) = Some x1" using s1 by (simp add: f64_mul_def ev)
  have r2: "f64_round (x1 * yv) = Some x2" using s2 by (simp add: f64_mul_def yv)
  have r3: "f64_round (x2 / kv) = Some x3" using s3 kv0 by (simp add: f64_div_def kv)
  have r4: "f64_round (x3 * ?c) = Some x4" using s4 by (simp add: f64_mul_def)
  show c1: "cost_saved_eur_per_year_f64 (calculate_impact_f64 d cfg) = Some x4"
    by (simp add: calculate_impact_f64_def Let_def ev yv kv kv0 f64_mul_def f64_div_def r1 r2 r3 r4)
  have m1: "f64_mul (Some (2 * d)) (Some ev) = f64_round (2 * (d * ev))"
    by (simp add: f64_mul_def mult.assoc)
  have m2: "f64_mul (Some (2 * x1)) (Some yv) = f64_round (2 * (x1 * yv))"
    by (simp add: f64_mul_def mult.assoc)
  have m3: "f64_div (Some (2 * x2)) (Some kv) = f64_round (2 * (x2 / kv))"
    using kv0 by (simp add: f64_div_def)
  have m4: "f64_mul (Some (2 * x3)) (Some ?c) = f64_round (2 * (x3 * ?c))"
    by (simp add: f64_mul_def mult.assoc)
  have c2: "cost_saved_eur_per_year_f64 (calculate_impact_f64 (2 * d) cfg) =
      f64_mul (f64_div (f64_mul (f64_round (2 * (d * ev))) (Some yv)) (Some kv)) (Some ?c)"
    by (simp only: calculate_impact_f64_def Let_def ev yv kv m1 impact_outputs_f64.simps)
  have fin1: "f64_mul (f64_div (f64_mul (f64_round (2 * (d * ev))) (Some yv)) (Some kv))
                (Some ?c) \<noteq> None"
    using fin by (simp only: c2 not_False_eq_True)
  have f1: "f64_round (2 * (d * ev)) \<noteq> None"
    using fin1 by (cases "f64_round (2 * (d * ev))") auto
  have t1: "f64_round (2 * (d * ev)) = Some (2 * x1)"
    by (rule f64_round_double[OF r1 n(1) f1])
  have fin2: "f64_mul (f64_div (f64_round (2 * (x1 * yv))) (Some kv)) (Some ?c) \<noteq> None"
    using fin1 by (simp only: t1 m2 not_False_eq_True)
  have f2: "f64_round (2 * (x1 * yv)) \<noteq> None"
    using fin2 by (cases "f64_round (2 * (x1 * yv))") auto
  have t2: "f64_round (2 * (x1 * yv)) = Some (2 * x2)"
    by (rule f64_round_double[OF r2 n(2) f2])
  have fin3: "f64_mul (f64_round (2 * (x2 / kv))) (Some ?c) \<noteq> None"
    using fin2 by (simp only: t2 m3 not_False_eq_True)
  have f3: "f64_round (2 * (x2 / kv)) \<noteq> None"
    using fin3 by (cases "f64_round (2 * (x2 / kv))") auto
  have t3: "f64_round (2 * (x2 / kv)) = Some (2 * x3)"
    by (rule f64_round_double[OF r3 n(3) f3])
  have f4: "f64_round (2 * (x3 * ?c)) \<noteq> None"
    using fin3 by (simp only: t3 m4 not_False_eq_True)
  have t4: "f64_round (2 * (x3 * ?c)) = Some (2 * x4)"
    by (rule f64_round_double[OF r4 n(4) f4])
  show "cost_saved_eur_per_year_f64 (calculate_impact_f64 (2 * d) cfg) = Some (2 * x4)"
    by (simp only: c2 t1 m2 t2 m3 t3 m4 t4)
  have "f64_round (2 * x4) = Some (2 * x4)" by (rule f64_round_idem[OF t4])
  then show "f64_mul (f64_of_int 2) (Some x4) = Some (2 * x4)"
    using f64_of_int_exact[of 2] by (simp add: f64_mul_def)
qed

lemma exact_vals:
  "f64_round 14400 = Some 14400" "f64_round 3600000 = Some 3600000"
  "f64_round 28800 = Some 28800" "f64_round 7200000 = Some 7200000"
  "f64_round 1 = Some 1" "f64_round 2 = Some 2" "f64_round (1 / 2) = Some (1 / 2)"
  using f64_round_exact[where x = 14400 and m = 14400 and j = 0]
    f64_round_exact[where x = 3600000 and m = 3600000 and j = 0]
    f64_round_exact[where x = 28800 and m = 28800 and j = 0]
    f64_round_exact[where x = 7200000 and m = 7200000 and j = 0]
    f64_round_exact[where x = 1 and m = 1 and j = 0]
    f64_round_exact[where x = 2 and m = 2 and j = 0]
    f64_round_exact[where x = "1 / 2" and m = 1 and j = "- 1"]
  by (simp_all add: powr_minus_divide)

lemma exact_vals_neg:
  "f64_round (- 14400) = Some (- 14400)" "f64_round (- 3600000) = Some (- 3600000)"
  "f64_round (- 1) = Some (- 1)" "f64_round (- (1 / 2)) = Some (- (1 / 2))"
  using f64_round_exact[where x = "- 14400" and m = "- 14400" and j = 0]
    f64_round_exact[where x = "- 3600000" and m = "- 3600000" and j = 0]
    f64_round_exact[where x = "- 1" and m = "- 1" and j = 0]
    f64_round_exact[where x = "- (1 / 2)" and m = "- 1" and j = "- 1"]
  by (simp_all add: powr_minus_divide)

lemma min_normal_lt_half: "(2::real) powr (- 1022) < 1 / 2"
proof -
  have "(2::real) powr (- 1022) \<le> 2 powr (- 2)" by (intro powr_mono) simp_all
  also have "(2::real) powr (- 2) = 1 / 4" by (simp add: powr_minus_divide)
  finally show ?thesis by simp
qed

section \<open>Linearity and sign of the impact projection\<close>

text \<open>
  Claim C7, as amended. In binary64 the projected cost of twice the delta is twice the
  projected cost of the delta, as a float product and as a number, whenever the four
  intermediate results that lead to the cost of the delta exceed \<open>2^-1022\<close> in magnitude
  (are normal numbers) and the cost of twice the delta is finite. A negative delta is a legal
  input: with non-negative configuration values every projection that is finite is at most
  zero, and in exact arithmetic with positive configuration values every projection is
  strictly negative.
\<close>

theorem impact_linear_normal_range:
  "(f64_mul (Some d) (f64_of_int (executions_per_day cfg)) = Some x1 \<and>
    f64_mul (Some x1) (f64_of_int (days_per_year cfg)) = Some x2 \<and>
    f64_div (Some x2) (f64_of_int 3600000) = Some x3 \<and>
    f64_mul (Some x3) (Some (cost_per_hour_eur cfg)) = Some x4 \<and>
    2 powr (- 1022) < \<bar>x1\<bar> \<and> 2 powr (- 1022) < \<bar>x2\<bar> \<and>
    2 powr (- 1022) < \<bar>x3\<bar> \<and> 2 powr (- 1022) < \<bar>x4\<bar> \<and>
    cost_saved_eur_per_year_f64 (calculate_impact_f64 (2 * d) cfg) \<noteq> None
    \<longrightarrow>
      cost_saved_eur_per_year_f64 (calculate_impact_f64 d cfg) = Some x4 \<and>
      cost_saved_eur_per_year_f64 (calculate_impact_f64 (2 * d) cfg) =
        f64_mul (f64_of_int 2) (Some x4) \<and>
      f64_mul (f64_of_int 2) (Some x4) = Some (2 * x4)) \<and>
   (d < 0 \<and> 0 \<le> executions_per_day cfg \<and> 0 \<le> days_per_year cfg \<and>
    0 \<le> cost_per_hour_eur cfg \<and> 0 \<le> electricity_kwh_per_hour cfg \<and>
    0 \<le> co2_kg_per_kwh cfg
    \<longrightarrow>
      (\<forall>v. time_saved_hours_per_year_f64 (calculate_impact_f64 d cfg) = Some v \<longrightarrow> v \<le> 0) \<and>
      (\<forall>v. cost_saved_eur_per_year_f64 (calculate_impact_f64 d cfg) = Some v \<longrightarrow> v \<le> 0) \<and>
      (\<forall>v. electricity_saved_kwh_per_year_f64 (calculate_impact_f64 d cfg) = Some v
           \<longrightarrow> v \<le> 0) \<and>
      (\<forall>v. co2_avoided_kg_per_year_f64 (calculate_impact_f64 d cfg) = Some v \<longrightarrow> v \<le> 0)) \<and>
   (d < 0 \<and> 0 < executions_per_day cfg \<and> 0 < days_per_year cfg \<and>
    0 < cost_per_hour_eur cfg \<and> 0 < electricity_kwh_per_hour cfg \<and>
    0 < co2_kg_per_kwh cfg
    \<longrightarrow>
      time_saved_hours_per_year (calculate_impact d cfg) < 0 \<and>
      cost_saved_eur_per_year (calculate_impact d cfg) < 0 \<and>
      electricity_saved_kwh_per_year (calculate_impact d cfg) < 0 \<and>
      co2_avoided_kg_per_year (calculate_impact d cfg) < 0)"
proof (intro conjI impI)
  assume a: "f64_mul (Some d) (f64_of_int (executions_per_day cfg)) = Some x1 \<and>
    f64_mul (Some x1) (f64_of_int (days_per_year cfg)) = Some x2 \<and>
    f64_div (Some x2) (f64_of_int 3600000) = Some x3 \<and>
    f64_mul (Some x3) (Some (cost_per_hour_eur cfg)) = Some x4 \<and>
    2 powr (- 1022) < \<bar>x1\<bar> \<and> 2 powr (- 1022) < \<bar>x2\<bar> \<and>
    2 powr (- 1022) < \<bar>x3\<bar> \<and> 2 powr (- 1022) < \<bar>x4\<bar> \<and>
    cost_saved_eur_per_year_f64 (calculate_impact_f64 (2 * d) cfg) \<noteq> None"
  then have s: "f64_mul (Some d) (f64_of_int (executions_per_day cfg)) = Some x1"
    "f64_mul (Some x1) (f64_of_int (days_per_year cfg)) = Some x2"
    "f64_div (Some x2) (f64_of_int 3600000) = Some x3"
    "f64_mul (Some x3) (Some (cost_per_hour_eur cfg)) = Some x4"
    and n: "2 powr (- 1022) < \<bar>x1\<bar>" "2 powr (- 1022) < \<bar>x2\<bar>"
    "2 powr (- 1022) < \<bar>x3\<bar>" "2 powr (- 1022) < \<bar>x4\<bar>"
    and fin: "cost_saved_eur_per_year_f64 (calculate_impact_f64 (2 * d) cfg) \<noteq> None"
    by blast+
  note r = f64_cost_doubles[OF s n fin]
  show "cost_saved_eur_per_year_f64 (calculate_impact_f64 d cfg) = Some x4" by (rule r(1))
  show "cost_saved_eur_per_year_f64 (calculate_impact_f64 (2 * d) cfg) =
        f64_mul (f64_of_int 2) (Some x4)" by (simp only: r(2) r(3))
  show "f64_mul (f64_of_int 2) (Some x4) = Some (2 * x4)" by (rule r(3))
next
  assume a: "d < 0 \<and> 0 \<le> executions_per_day cfg \<and> 0 \<le> days_per_year cfg \<and>
    0 \<le> cost_per_hour_eur cfg \<and> 0 \<le> electricity_kwh_per_hour cfg \<and>
    0 \<le> co2_kg_per_kwh cfg"
  then have h: "d < 0" "0 \<le> executions_per_day cfg" "0 \<le> days_per_year cfg"
    "0 \<le> cost_per_hour_eur cfg" "0 \<le> electricity_kwh_per_hour cfg"
    "0 \<le> co2_kg_per_kwh cfg" by blast+
  note r = calculate_impact_f64_nonpos[OF h]
  show "\<forall>v. time_saved_hours_per_year_f64 (calculate_impact_f64 d cfg) = Some v \<longrightarrow> v \<le> 0"
    using r by blast
  show "\<forall>v. cost_saved_eur_per_year_f64 (calculate_impact_f64 d cfg) = Some v \<longrightarrow> v \<le> 0"
    using r by blast
  show "\<forall>v. electricity_saved_kwh_per_year_f64 (calculate_impact_f64 d cfg) = Some v
           \<longrightarrow> v \<le> 0"
    using r by blast
  show "\<forall>v. co2_avoided_kg_per_year_f64 (calculate_impact_f64 d cfg) = Some v \<longrightarrow> v \<le> 0"
    using r by blast
next
  assume a: "d < 0 \<and> 0 < executions_per_day cfg \<and> 0 < days_per_year cfg \<and>
    0 < cost_per_hour_eur cfg \<and> 0 < electricity_kwh_per_hour cfg \<and>
    0 < co2_kg_per_kwh cfg"
  then have h: "d < 0" "0 < executions_per_day cfg" "0 < days_per_year cfg"
    "0 < cost_per_hour_eur cfg" "0 < electricity_kwh_per_hour cfg"
    "0 < co2_kg_per_kwh cfg" by blast+
  note r = calculate_impact_negative[OF h]
  show "time_saved_hours_per_year (calculate_impact d cfg) < 0" using r by blast
  show "cost_saved_eur_per_year (calculate_impact d cfg) < 0" using r by blast
  show "electricity_saved_kwh_per_year (calculate_impact d cfg) < 0" using r by blast
  show "co2_avoided_kg_per_year (calculate_impact d cfg) < 0" using r by blast
qed

theorem impact_linear_normal_range_witness:
  "f64_mul (Some 144) (f64_of_int (executions_per_day default_impact_inputs)) = Some 14400 \<and>
   f64_mul (Some 14400) (f64_of_int (days_per_year default_impact_inputs)) = Some 3600000 \<and>
   f64_div (Some 3600000) (f64_of_int 3600000) = Some 1 \<and>
   f64_mul (Some 1) (Some (cost_per_hour_eur default_impact_inputs)) = Some (1 / 2) \<and>
   cost_saved_eur_per_year_f64 (calculate_impact_f64 144 default_impact_inputs)
     = Some (1 / 2) \<and>
   cost_saved_eur_per_year_f64 (calculate_impact_f64 (2 * 144) default_impact_inputs)
     = f64_mul (f64_of_int 2) (Some (1 / 2)) \<and>
   f64_mul (f64_of_int 2) (Some (1 / 2)) = Some 1 \<and>
   (- 144 :: real) < 0 \<and>
   cost_saved_eur_per_year_f64 (calculate_impact_f64 (- 144) default_impact_inputs)
     = Some (- (1 / 2)) \<and>
   (- (1 / 2) :: real) \<le> 0 \<and>
   cost_saved_eur_per_year (calculate_impact (- 144) default_impact_inputs) < 0"
proof -
  have s: "f64_mul (Some 144) (f64_of_int (executions_per_day default_impact_inputs)) = Some 14400"
    "f64_mul (Some 14400) (f64_of_int (days_per_year default_impact_inputs)) = Some 3600000"
    "f64_div (Some 3600000) (f64_of_int 3600000) = Some 1"
    "f64_mul (Some 1) (Some (cost_per_hour_eur default_impact_inputs)) = Some (1 / 2)"
    by (simp_all add: default_impact_inputs_def int_vals f64_mul_def f64_div_def exact_vals)
  have n: "2 powr (- 1022) < \<bar>14400 :: real\<bar>" "2 powr (- 1022) < \<bar>3600000 :: real\<bar>"
    "2 powr (- 1022) < \<bar>1 :: real\<bar>" "2 powr (- 1022) < \<bar>1 / 2 :: real\<bar>"
    using min_normal_lt_half by simp_all
  have fin: "cost_saved_eur_per_year_f64 (calculate_impact_f64 (2 * 144) default_impact_inputs)
      \<noteq> None"
    by (simp add: calculate_impact_f64_def default_impact_inputs_def Let_def int_vals
        f64_mul_def f64_div_def exact_vals)
  have c: "0 \<le> executions_per_day default_impact_inputs"
    "0 \<le> days_per_year default_impact_inputs"
    "0 \<le> cost_per_hour_eur default_impact_inputs"
    "0 \<le> electricity_kwh_per_hour default_impact_inputs"
    "0 \<le> co2_kg_per_kwh default_impact_inputs"
    "0 < executions_per_day default_impact_inputs"
    "0 < days_per_year default_impact_inputs"
    "0 < cost_per_hour_eur default_impact_inputs"
    "0 < electricity_kwh_per_hour default_impact_inputs"
    "0 < co2_kg_per_kwh default_impact_inputs"
    by (simp_all add: default_impact_inputs_def)
  note t1 = impact_linear_normal_range[of 144 default_impact_inputs 14400 3600000 1 "1 / 2"]
  note t2 = impact_linear_normal_range[of "- 144" default_impact_inputs 0 0 0 0]
  have l: "cost_saved_eur_per_year_f64 (calculate_impact_f64 144 default_impact_inputs)
       = Some (1 / 2) \<and>
     cost_saved_eur_per_year_f64 (calculate_impact_f64 (2 * 144) default_impact_inputs)
       = f64_mul (f64_of_int 2) (Some (1 / 2)) \<and>
     f64_mul (f64_of_int 2) (Some (1 / 2)) = Some (2 * (1 / 2))"
    using t1[THEN conjunct1] s n fin by blast
  have e: "cost_saved_eur_per_year_f64 (calculate_impact_f64 (- 144) default_impact_inputs)
      = Some (- (1 / 2))"
    by (simp add: calculate_impact_f64_def default_impact_inputs_def Let_def int_vals
        f64_mul_def f64_div_def exact_vals_neg)
  have g: "\<forall>v. cost_saved_eur_per_year_f64
                 (calculate_impact_f64 (- 144) default_impact_inputs) = Some v \<longrightarrow> v \<le> 0"
    using t2[THEN conjunct2, THEN conjunct1] c by simp
  from g e have g': "(- (1 / 2) :: real) \<le> 0" by blast
  have h: "cost_saved_eur_per_year (calculate_impact (- 144) default_impact_inputs) < 0"
    using t2[THEN conjunct2, THEN conjunct2] c by simp
  show ?thesis using s l e g' h by simp
qed

text \<open>
  Claim C7 as stated, for every delta, fails in the subnormal range. With the default
  configuration and the delta \<open>144 * 2^-1074\<close>, the cost of the delta rounds to zero
  (a tie, resolved to the even neighbour), so twice that cost is zero, while the cost of
  twice the delta is \<open>2^-1074\<close>.
\<close>

theorem impact_linearity_fails_subnormal:
  "cost_saved_eur_per_year_f64
     (calculate_impact_f64 (144 * 2 powr (- 1074)) default_impact_inputs) = Some 0 \<and>
   f64_mul (f64_of_int 2) (Some 0) = Some 0 \<and>
   f64_mul (f64_of_int 2) (Some (144 * 2 powr (- 1074))) = Some (288 * 2 powr (- 1074)) \<and>
   cost_saved_eur_per_year_f64
     (calculate_impact_f64 (288 * 2 powr (- 1074)) default_impact_inputs)
     = Some (2 powr (- 1074)) \<and>
   (2::real) powr (- 1074) \<noteq> 0"
proof -
  have h: "f64_round (2 powr (- 1074) * (1 / 2)) = Some 0" by (rule f64_round_half_min)
  show ?thesis
    using h
    by (simp add: calculate_impact_f64_def default_impact_inputs_def Let_def f64_mul_def
        f64_div_def int_vals sub_vals)
qed

end
